theory Spec2Isabelle
  imports Main
begin

section \<open>Python values and strings\<close>

text \<open>
  Strings are \<open>char list\<close>. The two string operations the validators use are
  \<open>str.lower\<close> and \<open>str.rsplit(".", 1)\<close>. \<open>py_lower\<close> maps the letters A to Z to a to z
  and leaves every other character alone; the allowed extensions are ASCII and hold no
  letter k, so no character outside ASCII can be lowered into one of them and the
  decision of the validators is the one Python takes.
\<close>

definition py_lower_char :: "char \<Rightarrow> char" where
  "py_lower_char c =
     (case map_of (zip ''ABCDEFGHIJKLMNOPQRSTUVWXYZ'' ''abcdefghijklmnopqrstuvwxyz'') c of
        Some l \<Rightarrow> l
      | None \<Rightarrow> c)"

definition py_lower :: "string \<Rightarrow> string" where
  "py_lower s = map py_lower_char s"

text \<open>
  \<open>s.rsplit(sep, 1)\<close>: at most one split, at the last occurrence of \<open>sep\<close>; the whole
  string in a one-element list when \<open>sep\<close> does not occur.
\<close>

definition rsplit1 :: "char \<Rightarrow> string \<Rightarrow> string list" where
  "rsplit1 sep s =
     (if sep \<in> set s
      then [rev (drop 1 (dropWhile (\<lambda>c. c \<noteq> sep) (rev s))),
            rev (takeWhile (\<lambda>c. c \<noteq> sep) (rev s))]
      else [s])"

text \<open>
  \<open>str.strip()\<close> with no argument removes leading and trailing whitespace; the
  whitespace characters below 128 are tab, line feed, vertical tab, form feed, carriage
  return, the four separators 28 to 31 and the space.
\<close>

definition py_isspace :: "char \<Rightarrow> bool" where
  "py_isspace c = ((of_char c :: nat) \<in> {9, 10, 11, 12, 13, 28, 29, 30, 31, 32})"

definition py_strip :: "string \<Rightarrow> string" where
  "py_strip s = rev (dropWhile py_isspace (rev (dropWhile py_isspace s)))"

record date =
  year :: int
  month :: int
  day :: int

text \<open>The values a \<open>Dict[str, Any]\<close> of this program carries.\<close>

datatype pyval = PNone | PInt int | PStr string | PDate date

text \<open>Truthiness, as \<open>if x:\<close> tests it.\<close>

fun py_truthy :: "pyval \<Rightarrow> bool" where
  "py_truthy PNone = False"
| "py_truthy (PInt n) = (n \<noteq> 0)"
| "py_truthy (PStr s) = (s \<noteq> [])"
| "py_truthy (PDate d) = True"

section \<open>Exceptions (exceptions.py)\<close>

text \<open>
  One constructor per exception class that reaches the transport boundary.
  \<open>NotFoundError\<close> keeps the resource and the key it was looked up by (the source
  renders an integer key with \<open>str\<close>). \<open>FileUploadError\<close> keeps the filename: the
  message of the image validator joins a Python set, whose order is not fixed.
  \<open>StoreError\<close> stands for the exception of the relational store that the data-access
  layer re-raises after rollback, \<open>MultipleResultsFound\<close> for the one
  \<open>scalar_one_or_none\<close> raises, \<open>AttributeError\<close> for a read of an attribute an object
  does not have, and \<open>RequestValidationError\<close> for the rejection of a request by the
  declared \<open>Query\<close> constraints, with the names of the offending parameters.
\<close>

datatype lookup_key = Identifier int | Slug string

datatype error =
    NotFoundError string lookup_key
  | ValidationError string
  | AuthenticationError string
  | AuthorizationError string
  | FileUploadError string
  | ExternalServiceError string string
  | DatabaseError string
  | StoreError
  | MultipleResultsFound
  | AttributeError string
  | RequestValidationError "string list"

fun status_code :: "error \<Rightarrow> nat" where
  "status_code (NotFoundError r k) = 404"
| "status_code (ValidationError m) = 422"
| "status_code (AuthenticationError m) = 401"
| "status_code (AuthorizationError m) = 403"
| "status_code (FileUploadError f) = 400"
| "status_code (ExternalServiceError s m) = 502"
| "status_code (DatabaseError m) = 500"
| "status_code StoreError = 500"
| "status_code MultipleResultsFound = 500"
| "status_code (AttributeError a) = 500"
| "status_code (RequestValidationError p) = 422"

fun error_code :: "error \<Rightarrow> string" where
  "error_code (NotFoundError r k) = ''NOT_FOUND''"
| "error_code (ValidationError m) = ''VALIDATION_ERROR''"
| "error_code (AuthenticationError m) = ''AUTHENTICATION_ERROR''"
| "error_code (AuthorizationError m) = ''AUTHORIZATION_ERROR''"
| "error_code (FileUploadError f) = ''FILE_UPLOAD_ERROR''"
| "error_code (ExternalServiceError s m) = ''EXTERNAL_SERVICE_ERROR''"
| "error_code (DatabaseError m) = ''DATABASE_ERROR''"
| "error_code e = ''INTERNAL_SERVER_ERROR''"

section \<open>File validation (api/admin.py)\<close>

text \<open>An uploaded file: its filename, which a client may leave out or empty, and its bytes.\<close>

record upload_file =
  filename :: "string option"
  content :: string

definition ALLOWED_IMAGE_EXTENSIONS :: "string set" where
  "ALLOWED_IMAGE_EXTENSIONS = {''.jpg'', ''.jpeg'', ''.png'', ''.gif'', ''.webp''}"

definition ALLOWED_PDF_EXTENSIONS :: "string set" where
  "ALLOWED_PDF_EXTENSIONS = {''.pdf''}"

text \<open>
  \<open>"." + filename.rsplit(".", 1)[-1].lower() if "." in filename else ""\<close>.
  \<open>rsplit1\<close> never returns the empty list, so \<open>[-1]\<close> is its last element.
\<close>

definition file_ext :: "string \<Rightarrow> string" where
  "file_ext name =
     (if CHR ''.'' \<in> set name then CHR ''.'' # py_lower (last (rsplit1 CHR ''.'' name)) else [])"

definition validate_image_file :: "upload_file \<Rightarrow> error + unit" where
  "validate_image_file file =
     (case filename file of
        None \<Rightarrow> Inl (ValidationError ''File must have a filename'')
      | Some name \<Rightarrow>
          if name = [] then Inl (ValidationError ''File must have a filename'')
          else if file_ext name \<notin> ALLOWED_IMAGE_EXTENSIONS then Inl (FileUploadError name)
          else Inr ())"

definition validate_pdf_file :: "upload_file \<Rightarrow> error + unit" where
  "validate_pdf_file file =
     (case filename file of
        None \<Rightarrow> Inl (ValidationError ''File must have a filename'')
      | Some name \<Rightarrow>
          if name = [] then Inl (ValidationError ''File must have a filename'')
          else if file_ext name \<notin> ALLOWED_PDF_EXTENSIONS then Inl (FileUploadError name)
          else Inr ())"

text \<open>\<open>x and x.filename\<close> for an optional file: both present and the name non-empty.\<close>

definition has_filename :: "upload_file option \<Rightarrow> bool" where
  "has_filename f =
     (case f of None \<Rightarrow> False
      | Some file \<Rightarrow> (case filename file of None \<Rightarrow> False | Some name \<Rightarrow> name \<noteq> []))"

section \<open>Entities\<close>

text \<open>
  Modelled from the spec: the entity classes Wing and Photo (app/models is not part of
  the sources). A Wing has an identity, a display name and a unique slug; a Photo has an
  identity, the owning wing, a URL, the asset reference of the media host and its
  creation timestamp. Identity and timestamp of a Photo are assigned by the store, so
  they are absent on an object that was built and not yet saved.
\<close>

record wing =
  w_id :: int
  w_name :: string
  w_slug :: string

record photo =
  p_id :: "int option"
  p_wing_id :: int
  p_url :: string
  p_cloudinary_id :: string
  p_uploaded_at :: "int option"

text \<open>
  Modelled from the spec: the Activity entity (identity, owning wing, title,
  description, date, optional coordinator, optional report reference pair), as a row the
  statistics query returns.
\<close>

record activity =
  a_id :: int
  a_wing_id :: int
  a_title :: string
  a_description :: string
  a_activity_date :: date
  a_faculty_coordinator :: "string option"
  a_report_url :: "string option"
  a_report_cloudinary_id :: "string option"

section \<open>Statistics aggregation (api/public.py)\<close>

text \<open>
  The value type of \<open>wing_stats\<close>: the dictionary \<open>{"name", "slug", "count"}\<close>.
  \<open>wing_stats\<close> itself is a dictionary keyed by wing id; Python dictionaries keep the
  order in which keys were first inserted and the result list is built in that order, so
  it is an association list.
\<close>

record stat =
  st_name :: string
  st_slug :: string
  st_count :: int

type_synonym wing_stats = "(int \<times> stat) list"

text \<open>The factory of the \<open>defaultdict\<close>.\<close>

definition default_stat :: stat where
  "default_stat = \<lparr>st_name = [], st_slug = [], st_count = 0\<rparr>"

text \<open>
  The three statements \<open>wing_stats[wing.id]["name"] = wing.name\<close>,
  \<open>...["slug"] = wing.slug\<close>, \<open>...["count"] += 1\<close>: an absent key is first inserted at
  the end with the default entry, a present one is updated in place.
\<close>

fun record_activity :: "wing \<Rightarrow> wing_stats \<Rightarrow> wing_stats" where
  "record_activity w [] =
     [(w_id w, default_stat\<lparr>st_name := w_name w, st_slug := w_slug w,
                            st_count := st_count default_stat + 1\<rparr>)]"
| "record_activity w ((k, d) # rest) =
     (if k = w_id w
      then (k, d\<lparr>st_name := w_name w, st_slug := w_slug w, st_count := st_count d + 1\<rparr>) # rest
      else (k, d) # record_activity w rest)"

text \<open>
  The body of the loop: the year always joins \<open>years_set\<close> (a set, kept here as a list
  without repetition); the row is counted unless a filter is given and differs.
\<close>

fun stats_loop ::
  "int option \<Rightarrow> (activity \<times> wing) list \<Rightarrow> wing_stats \<times> int list \<Rightarrow> wing_stats \<times> int list" where
  "stats_loop yr [] acc = acc"
| "stats_loop yr ((a, w) # rest) (ws, years_set) =
     (let activity_year = year (a_activity_date a);
          years_set' = List.insert activity_year years_set
      in if yr \<noteq> None \<and> Some activity_year \<noteq> yr
         then stats_loop yr rest (ws, years_set')
         else stats_loop yr rest (record_activity w ws, years_set'))"

record stat_entry =
  wing_id :: int
  wing_name :: string
  wing_slug :: string
  activity_count :: int

record statistics_response =
  statistics :: "stat_entry list"
  available_years :: "int list"
  filtered_year :: "int option"

text \<open>
  The handler reads the joined rows with \<open>get_all_activities_with_wings\<close> and
  aggregates them; the aggregation is a function of the rows and of the year filter, and
  the rows are its parameter here. The declared bounds of the \<open>year\<close> parameter play
  no part in the aggregation, which is defined for every year.

  \<open>list.sort(key, reverse=True)\<close> is stable: entries with equal keys keep their
  order. \<open>sort_key\<close> on the negated key is the same sort. \<open>sorted(list(years_set),
  reverse=True)\<close> sorts distinct integers, so it is the reversed ascending sort.
\<close>

definition get_activity_statistics ::
  "int option \<Rightarrow> (activity \<times> wing) list \<Rightarrow> statistics_response" where
  "get_activity_statistics yr activities_with_wings =
     (let (ws, years_set) = stats_loop yr activities_with_wings ([], []);
          stats = map (\<lambda>(k, d). \<lparr>wing_id = k, wing_name = st_name d,
                                  wing_slug = st_slug d, activity_count = st_count d\<rparr>) ws
      in \<lparr>statistics = sort_key (\<lambda>e. - activity_count e) stats,
          available_years = rev (sort years_set),
          filtered_year = yr\<rparr>)"

text \<open>
  The spec's reading of the year filter: an activity passes when no year is given or
  when the calendar year of its date is the given one.
\<close>

definition year_matches :: "int option \<Rightarrow> activity \<Rightarrow> bool" where
  "year_matches yr a = (case yr of None \<Rightarrow> True | Some y \<Rightarrow> year (a_activity_date a) = y)"

text \<open>The rows that pass the filter, in the order of the input.\<close>

definition passing_rows :: "int option \<Rightarrow> (activity \<times> wing) list \<Rightarrow> (activity \<times> wing) list" where
  "passing_rows yr rows = filter (\<lambda>(a, w). year_matches yr a) rows"

text \<open>The rows of one wing: the activities joined with the wing of the given id.\<close>

definition wing_rows :: "int \<Rightarrow> (activity \<times> wing) list \<Rightarrow> (activity \<times> wing) list" where
  "wing_rows k rows = filter (\<lambda>(a, w). w_id w = k) rows"

section \<open>The relational store and the data-access layer (services/crud.py)\<close>

text \<open>
  \<open>update_activity\<close> reaches an Activity only through \<open>hasattr\<close> and \<open>setattr\<close>
  with keys and values taken from a \<open>Dict[str, Any]\<close>, so an Activity instance held by
  the session is the dictionary of its attributes.
\<close>

type_synonym pyobj = "string \<rightharpoonup> pyval"

definition hasattr :: "pyobj \<Rightarrow> string \<Rightarrow> bool" where
  "hasattr obj key = (obj key \<noteq> None)"

definition setattr :: "pyobj \<Rightarrow> string \<Rightarrow> pyval \<Rightarrow> pyobj" where
  "setattr obj key v = obj(key \<mapsto> v)"

definition getattr :: "pyobj \<Rightarrow> string \<Rightarrow> error + pyval" where
  "getattr obj key = (case obj key of None \<Rightarrow> Inl (AttributeError key) | Some v \<Rightarrow> Inr v)"

text \<open>
  The session: the three tables, the identity and the timestamp the store gives to the
  next inserted photo, and whether the store refuses the commit of this request (the
  source then rolls back and re-raises).
\<close>

record session =
  wings :: "wing list"
  activities :: "pyobj list"
  photos :: "photo list"
  photo_seq :: int
  clock :: int
  commit_fails :: bool

text \<open>\<open>Result.scalar_one_or_none\<close>: no row, the one row, or an exception for several.\<close>

fun scalar_one_or_none :: "'a list \<Rightarrow> error + 'a option" where
  "scalar_one_or_none [] = Inr None"
| "scalar_one_or_none [x] = Inr (Some x)"
| "scalar_one_or_none (x # y # rest) = Inl MultipleResultsFound"

definition get_wing_by_id :: "session \<Rightarrow> int \<Rightarrow> error + wing option" where
  "get_wing_by_id s wid = scalar_one_or_none (filter (\<lambda>w. w_id w = wid) (wings s))"

definition get_wing_by_slug :: "session \<Rightarrow> string \<Rightarrow> error + wing option" where
  "get_wing_by_slug s slug = scalar_one_or_none (filter (\<lambda>w. w_slug w = slug) (wings s))"

definition has_id :: "int \<Rightarrow> pyobj \<Rightarrow> bool" where
  "has_id i obj = (obj ''id'' = Some (PInt i))"

definition get_activity_by_id :: "session \<Rightarrow> int \<Rightarrow> error + pyobj option" where
  "get_activity_by_id s activity_id =
     scalar_one_or_none (filter (has_id activity_id) (activities s))"

definition get_photo_by_id :: "session \<Rightarrow> int \<Rightarrow> error + photo option" where
  "get_photo_by_id s photo_id =
     scalar_one_or_none (filter (\<lambda>p. p_id p = Some photo_id) (photos s))"

text \<open>
  The loop \<open>for key, value in update_data.items(): if hasattr(activity, key):
  setattr(activity, key, value)\<close>. A dictionary is the list of its items in insertion
  order, keys distinct.
\<close>

definition apply_update :: "(string \<times> pyval) list \<Rightarrow> pyobj \<Rightarrow> pyobj" where
  "apply_update update_data activity =
     fold (\<lambda>(key, v) obj. if hasattr obj key then setattr obj key v else obj)
       update_data activity"

text \<open>
  \<open>CRUDService.update_activity\<close>. The lookup is made before the \<open>try\<close>. The commit
  writes the changed instance to its row and \<open>refresh\<close> reads it back; a refused commit
  is rolled back and re-raised.
\<close>

definition CRUDService_update_activity ::
  "session \<Rightarrow> int \<Rightarrow> (string \<times> pyval) list \<Rightarrow> (error + pyobj option) \<times> session" where
  "CRUDService_update_activity s activity_id update_data =
     (case get_activity_by_id s activity_id of
        Inl e \<Rightarrow> (Inl e, s)
      | Inr None \<Rightarrow> (Inr None, s)
      | Inr (Some activity) \<Rightarrow>
          let activity' = apply_update update_data activity
          in if commit_fails s then (Inl StoreError, s)
             else (Inr (Some activity'),
                   s\<lparr>activities :=
                       map (\<lambda>row. if has_id activity_id row then activity' else row)
                         (activities s)\<rparr>))"

text \<open>
  \<open>CRUDService.delete_activity\<close> and \<open>CRUDService.delete_photo\<close>: one DELETE
  statement, then \<open>deleted = result.rowcount > 0\<close>.
\<close>

definition CRUDService_delete_activity :: "session \<Rightarrow> int \<Rightarrow> (error + bool) \<times> session" where
  "CRUDService_delete_activity s activity_id =
     (if commit_fails s then (Inl StoreError, s)
      else let rowcount = length (filter (has_id activity_id) (activities s));
               deleted = (rowcount > 0)
           in (Inr deleted,
               s\<lparr>activities := filter (\<lambda>row. \<not> has_id activity_id row) (activities s)\<rparr>))"

definition CRUDService_delete_photo :: "session \<Rightarrow> int \<Rightarrow> (error + bool) \<times> session" where
  "CRUDService_delete_photo s photo_id =
     (if commit_fails s then (Inl StoreError, s)
      else let rowcount = length (filter (\<lambda>p. p_id p = Some photo_id) (photos s));
               deleted = (rowcount > 0)
           in (Inr deleted,
               s\<lparr>photos := filter (\<lambda>p. p_id p \<noteq> Some photo_id) (photos s)\<rparr>))"

text \<open>
  \<open>CRUDService.create_photos_bulk\<close>: \<open>add_all\<close>, one commit, then a refresh of each
  photo, which now carries the identity and the timestamp of the store.
\<close>

definition CRUDService_create_photos_bulk ::
  "session \<Rightarrow> photo list \<Rightarrow> (error + photo list) \<times> session" where
  "CRUDService_create_photos_bulk s new_photos =
     (if commit_fails s then (Inl StoreError, s)
      else let created =
                 map (\<lambda>(i, p). p\<lparr>p_id := Some (photo_seq s + int i),
                                 p_uploaded_at := Some (clock s)\<rparr>)
                   (enumerate 0 new_photos)
           in (Inr created,
               s\<lparr>photos := photos s @ created,
                 photo_seq := photo_seq s + int (length new_photos)\<rparr>))"

text \<open>
  \<open>CRUDService.get_photos_by_wing\<close>: newest first, then \<open>LIMIT\<close> and \<open>OFFSET\<close>.
  Stored photos carry a timestamp; the order the store gives to equal timestamps is its
  own, here the order of the table.
\<close>

definition uploaded_key :: "photo \<Rightarrow> int" where
  "uploaded_key p = (case p_uploaded_at p of None \<Rightarrow> 0 | Some t \<Rightarrow> t)"

definition get_photos_by_wing :: "session \<Rightarrow> int \<Rightarrow> int \<Rightarrow> int \<Rightarrow> photo list" where
  "get_photos_by_wing s wid limit offset =
     take (nat limit) (drop (nat offset)
       (sort_key (\<lambda>p. - uploaded_key p) (filter (\<lambda>p. p_wing_id p = wid) (photos s))))"

section \<open>The media host\<close>

text \<open>
  The media-hosting client (app/services/cloudinary.py) is an external collaborator and
  not part of the sources: what it answers is a parameter of every handler. An upload
  answers with the URL and the public id of each asset, or raises (\<open>None\<close>); a deletion
  returns or raises (\<open>False\<close>). Each handler reports the calls it made, in order.
\<close>

record upload_result =
  url :: string
  public_id :: string

record media_host =
  upload_images_bulk :: "upload_file list \<Rightarrow> string \<Rightarrow> upload_result list option"
  upload_pdf :: "upload_file \<Rightarrow> string \<Rightarrow> upload_result option"
  delete_media :: "pyval \<Rightarrow> string \<Rightarrow> bool"

datatype media_call =
    UploadImagesBulk "upload_file list" string
  | UploadPdf upload_file string
  | DeleteMedia pyval string

section \<open>Admin route handlers (api/admin.py)\<close>

text \<open>
  A handler takes the media host and the session and returns its outcome, the session
  it leaves behind and the calls it made to the media host.
\<close>

text \<open>\<open>for file in files: validate_image_file(file)\<close>: the first failure is raised.\<close>

fun validate_all :: "upload_file list \<Rightarrow> error + unit" where
  "validate_all [] = Inr ()"
| "validate_all (file # rest) =
     (case validate_image_file file of Inl e \<Rightarrow> Inl e | Inr u \<Rightarrow> validate_all rest)"

text \<open>\<open>Photo(wing_id=..., url=..., cloudinary_id=...)\<close>.\<close>

definition Photo :: "int \<Rightarrow> string \<Rightarrow> string \<Rightarrow> photo" where
  "Photo wid u cid =
     \<lparr>p_id = None, p_wing_id = wid, p_url = u, p_cloudinary_id = cid, p_uploaded_at = None\<rparr>"

definition upload_photos ::
  "media_host \<Rightarrow> int \<Rightarrow> upload_file list \<Rightarrow> session
     \<Rightarrow> (error + photo list) \<times> session \<times> media_call list" where
  "upload_photos host wid files s =
     (case get_wing_by_id s wid of
        Inl e \<Rightarrow> (Inl e, s, [])
      | Inr None \<Rightarrow> (Inl (NotFoundError ''Wing'' (Identifier wid)), s, [])
      | Inr (Some wing) \<Rightarrow>
          (case validate_all files of
             Inl e \<Rightarrow> (Inl e, s, [])
           | Inr u \<Rightarrow>
               let folder = ''anvaya/'' @ w_slug wing
               in (case upload_images_bulk host files folder of
                     None \<Rightarrow>
                       (Inl (ExternalServiceError ''Cloudinary'' ''Failed to upload images''),
                        s, [UploadImagesBulk files folder])
                   | Some uploaded_files \<Rightarrow>
                       let new_photos =
                             map (\<lambda>upload_result.
                                    Photo wid (url upload_result) (public_id upload_result))
                               uploaded_files;
                           (created_photos, s') = CRUDService_create_photos_bulk s new_photos
                       in (created_photos, s', [UploadImagesBulk files folder]))))"

definition delete_photo ::
  "media_host \<Rightarrow> int \<Rightarrow> session \<Rightarrow> (error + string) \<times> session \<times> media_call list" where
  "delete_photo host photo_id s =
     (case get_photo_by_id s photo_id of
        Inl e \<Rightarrow> (Inl e, s, [])
      | Inr None \<Rightarrow> (Inl (NotFoundError ''Photo'' (Identifier photo_id)), s, [])
      | Inr (Some ph) \<Rightarrow>
          let swallowed = delete_media host (PStr (p_cloudinary_id ph)) ''image'';
              calls = [DeleteMedia (PStr (p_cloudinary_id ph)) ''image''];
              (deleted, s') = CRUDService_delete_photo s photo_id
          in (case deleted of
                Inl e \<Rightarrow> (Inl e, s', calls)
              | Inr b \<Rightarrow> (Inr ''Photo deleted successfully'', s', calls)))"

text \<open>\<open>d[key] = value\<close> on a dictionary kept as the list of its items.\<close>

fun dict_set :: "string \<Rightarrow> pyval \<Rightarrow> (string \<times> pyval) list \<Rightarrow> (string \<times> pyval) list" where
  "dict_set key v [] = [(key, v)]"
| "dict_set key v ((k, x) # rest) =
     (if k = key then (k, v) # rest else (k, x) # dict_set key v rest)"

text \<open>The four \<open>if ... is not None\<close> statements that build \<open>update_data\<close>.\<close>

definition build_update_data ::
  "string option \<Rightarrow> string option \<Rightarrow> date option \<Rightarrow> string option \<Rightarrow> (string \<times> pyval) list" where
  "build_update_data title description activity_date faculty_coordinator =
     (let d0 = [];
          d1 = (case title of None \<Rightarrow> d0
                | Some t \<Rightarrow> dict_set ''title'' (PStr (py_strip t)) d0);
          d2 = (case description of None \<Rightarrow> d1
                | Some t \<Rightarrow> dict_set ''description'' (PStr (py_strip t)) d1);
          d3 = (case activity_date of None \<Rightarrow> d2
                | Some t \<Rightarrow> dict_set ''activity_date'' (PDate t) d2);
          d4 = (case faculty_coordinator of None \<Rightarrow> d3
                | Some t \<Rightarrow> dict_set ''faculty_coordinator''
                              (if t \<noteq> [] then PStr (py_strip t) else PNone) d3)
      in d4)"

text \<open>
  The \<open>try\<close> block that uploads the new PDF: the wing is looked up by the activity's
  \<open>wing_id\<close> (a value that is no integer equals no wing id), the folder is chosen, the
  file is uploaded. Any exception in the block, of the attribute read, of the lookup or of
  the upload, is \<open>None\<close> here: the handler turns all of them into the same
  \<open>ExternalServiceError\<close>. The second component lists the calls made.
\<close>

definition upload_new_pdf ::
  "media_host \<Rightarrow> session \<Rightarrow> pyobj \<Rightarrow> upload_file \<Rightarrow> upload_result option \<times> media_call list" where
  "upload_new_pdf host s activity report_file =
     (case getattr activity ''wing_id'' of
        Inl e \<Rightarrow> (None, [])
      | Inr wv \<Rightarrow>
          (case (case wv of PInt wid \<Rightarrow> get_wing_by_id s wid | _ \<Rightarrow> Inr None) of
             Inl e \<Rightarrow> (None, [])
           | Inr wing \<Rightarrow>
               let folder = (case wing of
                               Some w \<Rightarrow> ''anvaya/'' @ w_slug w @ ''/reports''
                             | None \<Rightarrow> ''anvaya/reports'')
               in (upload_pdf host report_file folder, [UploadPdf report_file folder])))"

definition update_activity ::
  "media_host \<Rightarrow> int \<Rightarrow> string option \<Rightarrow> string option \<Rightarrow> date option \<Rightarrow> string option
     \<Rightarrow> upload_file option \<Rightarrow> session
     \<Rightarrow> (error + pyobj option) \<times> session \<times> media_call list" where
  "update_activity host activity_id title description activity_date faculty_coordinator
     report_file s =
     (case get_activity_by_id s activity_id of
        Inl e \<Rightarrow> (Inl e, s, [])
      | Inr None \<Rightarrow> (Inl (NotFoundError ''Activity'' (Identifier activity_id)), s, [])
      | Inr (Some activity) \<Rightarrow>
          let update_data = build_update_data title description activity_date faculty_coordinator
          in if has_filename report_file
             then
               (case validate_pdf_file (the report_file) of
                  Inl e \<Rightarrow> (Inl e, s, [])
                | Inr u \<Rightarrow>
                    (case getattr activity ''report_cloudinary_id'' of
                       Inl e \<Rightarrow> (Inl e, s, [])
                     | Inr old_id \<Rightarrow>
                         let calls1 = (if py_truthy old_id then [DeleteMedia old_id ''raw'']
                                       else []);
                             (uploaded, calls2) =
                               upload_new_pdf host s activity (the report_file)
                         in (case uploaded of
                               None \<Rightarrow>
                                 (Inl (ExternalServiceError ''Cloudinary''
                                         ''Failed to upload PDF report''),
                                  s, calls1 @ calls2)
                             | Some upload_result \<Rightarrow>
                                 let update_data' =
                                       dict_set ''report_cloudinary_id''
                                         (PStr (public_id upload_result))
                                         (dict_set ''report_url'' (PStr (url upload_result))
                                            update_data);
                                     (updated_activity, s') =
                                       CRUDService_update_activity s activity_id update_data'
                                 in (updated_activity, s', calls1 @ calls2))))
             else
               let (updated_activity, s') =
                     CRUDService_update_activity s activity_id update_data
               in (updated_activity, s', []))"

section \<open>Public route handlers (api/public.py)\<close>

text \<open>
  A declared integer query parameter, \<open>Query(default=d, ge=lo, le=hi)\<close>, as the handler
  writes it: \<open>limit: int = Query(default=100, ge=1, le=500)\<close> and
  \<open>offset: int = Query(default=0, ge=0)\<close>.
\<close>

record query =
  q_default :: int
  q_ge :: "int option"
  q_le :: "int option"

text \<open>
  Modelled from the spec: the check of a supplied value against the declared bounds. The
  code that enforces a declaration belongs to the web framework and is not among the
  sources; the spec says \<open>limit\<close> in [1,500] and \<open>offset\<close> at least 0, both bounds
  inclusive.
\<close>

definition query_ok :: "query \<Rightarrow> int \<Rightarrow> bool" where
  "query_ok q v =
     ((case q_ge q of None \<Rightarrow> True | Some lo \<Rightarrow> lo \<le> v) \<and>
      (case q_le q of None \<Rightarrow> True | Some hi \<Rightarrow> v \<le> hi))"

text \<open>
  Modelled from the spec: the value the handler receives, the declared default for an
  absent parameter (default 100, default 0) and the supplied value, unchanged, otherwise.
\<close>

definition query_value :: "query \<Rightarrow> int option \<Rightarrow> int" where
  "query_value q raw = (case raw of None \<Rightarrow> q_default q | Some v \<Rightarrow> v)"

text \<open>
  Modelled from the spec: out-of-range values are rejected at the boundary, not silently
  clamped. Each supplied parameter is checked on its own; the names of those that break
  their bounds are the offences of the request, and a request with an offence is rejected
  with a validation error (status 422) before the handler body runs.
\<close>

definition query_offences :: "(string \<times> query \<times> int option) list \<Rightarrow> string list" where
  "query_offences params =
     map fst (filter (\<lambda>(name, q, raw). case raw of None \<Rightarrow> False
                                        | Some v \<Rightarrow> \<not> query_ok q v) params)"

definition limit_query :: query where
  "limit_query = \<lparr>q_default = 100, q_ge = Some 1, q_le = Some 500\<rparr>"

definition offset_query :: query where
  "offset_query = \<lparr>q_default = 0, q_ge = Some 0, q_le = None\<rparr>"

definition get_wing_photos ::
  "string \<Rightarrow> int option \<Rightarrow> int option \<Rightarrow> session \<Rightarrow> error + photo list" where
  "get_wing_photos slug raw_limit raw_offset s =
     (let offences = query_offences [(''limit'', limit_query, raw_limit),
                                     (''offset'', offset_query, raw_offset)]
      in if offences \<noteq> [] then Inl (RequestValidationError offences)
         else
           let limit = query_value limit_query raw_limit;
               offset = query_value offset_query raw_offset
           in (case get_wing_by_slug s slug of
                 Inl e \<Rightarrow> Inl e
               | Inr None \<Rightarrow> Inl (NotFoundError ''Wing'' (Slug slug))
               | Inr (Some wing) \<Rightarrow> Inr (get_photos_by_wing s (w_id wing) limit offset)))"

section \<open>Example data\<close>

text \<open>One wing, one activity with a report and one photo, in a store that commits.\<close>

definition example_activity :: pyobj where
  "example_activity =
     [''id'' \<mapsto> PInt 1, ''wing_id'' \<mapsto> PInt 7, ''title'' \<mapsto> PStr ''Talk'',
      ''description'' \<mapsto> PStr ''A talk'',
      ''activity_date'' \<mapsto> PDate \<lparr>year = 2024, month = 3, day = 9\<rparr>,
      ''faculty_coordinator'' \<mapsto> PNone, ''report_url'' \<mapsto> PStr ''http://m/r1.pdf'',
      ''report_cloudinary_id'' \<mapsto> PStr ''r1'']"

definition example_photo :: photo where
  "example_photo =
     \<lparr>p_id = Some 5, p_wing_id = 7, p_url = ''http://m/p5.jpg'', p_cloudinary_id = ''p5'',
      p_uploaded_at = Some 100\<rparr>"

definition example_wing :: wing where
  "example_wing = \<lparr>w_id = 7, w_name = ''Code Zero'', w_slug = ''codezero''\<rparr>"

definition example_session :: session where
  "example_session =
     \<lparr>wings = [example_wing], activities = [example_activity], photos = [example_photo],
      photo_seq = 6, clock = 200, commit_fails = False\<rparr>"

text \<open>A media host on which every call raises, and a report file.\<close>

definition failing_host :: media_host where
  "failing_host =
     \<lparr>upload_images_bulk = (\<lambda>files folder. None),
      upload_pdf = (\<lambda>file folder. None),
      delete_media = (\<lambda>asset resource_type. False)\<rparr>"

definition example_pdf :: upload_file where
  "example_pdf = \<lparr>filename = Some ''report.pdf'', content = ''%PDF''\<rparr>"

text \<open>A media host on which every call succeeds, and files to upload.\<close>

definition example_host :: media_host where
  "example_host =
     \<lparr>upload_images_bulk =
        (\<lambda>files folder.
           Some (map (\<lambda>f. \<lparr>url = ''http://m/'' @ folder @ ''/'' @ content f,
                           public_id = folder @ ''/'' @ content f\<rparr>) files)),
      upload_pdf =
        (\<lambda>f folder. Some \<lparr>url = ''http://m/'' @ folder @ ''/'' @ content f,
                           public_id = folder @ ''/'' @ content f\<rparr>),
      delete_media = (\<lambda>asset resource_type. True)\<rparr>"

definition nameless_file :: upload_file where
  "nameless_file = \<lparr>filename = Some [], content = ''x''\<rparr>"

definition exe_file :: upload_file where
  "exe_file = \<lparr>filename = Some ''a.exe'', content = ''y''\<rparr>"

definition jpg_file :: upload_file where
  "jpg_file = \<lparr>filename = Some ''a.jpg'', content = ''a''\<rparr>"

definition png_file :: upload_file where
  "png_file = \<lparr>filename = Some ''b.PNG'', content = ''b''\<rparr>"

text \<open>
  The rows of the spec's example: wing A with an activity in 2024 and one in 2023, wing B
  with an activity in 2024.
\<close>

definition wing_a :: wing where
  "wing_a = \<lparr>w_id = 1, w_name = ''Wing A'', w_slug = ''a''\<rparr>"

definition wing_b :: wing where
  "wing_b = \<lparr>w_id = 2, w_name = ''Wing B'', w_slug = ''b''\<rparr>"

definition activity_in :: "int \<Rightarrow> int \<Rightarrow> int \<Rightarrow> activity" where
  "activity_in i wid y =
     \<lparr>a_id = i, a_wing_id = wid, a_title = ''Talk'', a_description = ''A talk'',
      a_activity_date = \<lparr>year = y, month = 1, day = 1\<rparr>, a_faculty_coordinator = None,
      a_report_url = None, a_report_cloudinary_id = None\<rparr>"

definition example_rows :: "(activity \<times> wing) list" where
  "example_rows =
     [(activity_in 1 1 2024, wing_a), (activity_in 2 1 2023, wing_a),
      (activity_in 3 2 2024, wing_b)]"

section \<open>Lookups\<close>

lemma scalar_one_or_none_Some:
  "scalar_one_or_none xs = Inr (Some x) \<longleftrightarrow> xs = [x]"
  by (cases xs rule: scalar_one_or_none.cases) auto

lemma scalar_one_or_none_None:
  "scalar_one_or_none xs = Inr None \<longleftrightarrow> xs = []"
  by (cases xs rule: scalar_one_or_none.cases) auto

lemma filter_singleton_map_id:
  assumes "filter P xs = [a]"
  shows "map (\<lambda>row. if P row then a else row) xs = xs"
proof -
  have "\<forall>row \<in> set xs. P row \<longrightarrow> row = a"
  proof (intro ballI impI)
    fix row assume "row \<in> set xs" "P row"
    then have "row \<in> set (filter P xs)" by simp
    then show "row = a" using assms by simp
  qed
  then show ?thesis by (induction xs) auto
qed

section \<open>Deletion in the data-access layer\<close>

text \<open>
  Claim C7. \<open>CRUDService.delete_activity\<close> returns a boolean, true exactly when a row
  with the id was in the table, and the table it leaves holds no row with the id; an
  absent id gives \<open>False\<close> and no exception. The same holds of
  \<open>CRUDService.delete_photo\<close>. The only exception either raises is the one of the store
  itself, re-raised after rollback whatever the id is.
\<close>

theorem delete_returns_whether_removed:
  "(commit_fails s \<longrightarrow>
      CRUDService_delete_activity s i = (Inl StoreError, s) \<and>
      CRUDService_delete_photo s i = (Inl StoreError, s)) \<and>
   (\<not> commit_fails s \<longrightarrow>
      fst (CRUDService_delete_activity s i) = Inr (\<exists>row \<in> set (activities s). has_id i row) \<and>
      activities (snd (CRUDService_delete_activity s i)) =
        filter (\<lambda>row. \<not> has_id i row) (activities s) \<and>
      get_activity_by_id (snd (CRUDService_delete_activity s i)) i = Inr None \<and>
      fst (CRUDService_delete_photo s i) = Inr (\<exists>p \<in> set (photos s). p_id p = Some i) \<and>
      photos (snd (CRUDService_delete_photo s i)) =
        filter (\<lambda>p. p_id p \<noteq> Some i) (photos s) \<and>
      get_photo_by_id (snd (CRUDService_delete_photo s i)) i = Inr None)"
  by (auto simp: CRUDService_delete_activity_def CRUDService_delete_photo_def Let_def
      get_activity_by_id_def get_photo_by_id_def scalar_one_or_none_None
      filter_empty_conv)

theorem delete_returns_whether_removed_witness:
  "\<not> commit_fails example_session \<and>
   fst (CRUDService_delete_activity example_session 1) = Inr True \<and>
   fst (CRUDService_delete_activity example_session 2) = Inr False \<and>
   fst (CRUDService_delete_photo example_session 5) = Inr True \<and>
   fst (CRUDService_delete_photo example_session 6) = Inr False \<and>
   activities (snd (CRUDService_delete_activity example_session 1)) = [] \<and>
   CRUDService_delete_activity (example_session\<lparr>commit_fails := True\<rparr>) 2 =
     (Inl StoreError, example_session\<lparr>commit_fails := True\<rparr>)"
  using delete_returns_whether_removed [of example_session 1]
    delete_returns_whether_removed [of example_session 2]
    delete_returns_whether_removed [of example_session 5]
    delete_returns_whether_removed [of example_session 6]
    delete_returns_whether_removed [of "example_session\<lparr>commit_fails := True\<rparr>" 2]
  by (simp add: example_session_def example_activity_def example_photo_def has_id_def)

section \<open>Partial update in the data-access layer\<close>

text \<open>
  What the loop over \<open>update_data\<close> leaves in an attribute: nothing where the object
  had no such attribute, the last value listed for the key where there is one, the old
  value otherwise.
\<close>

lemma apply_update_lookup:
  "apply_update upd a k =
     (if a k = None then None
      else (case map_of (rev upd) k of Some v \<Rightarrow> Some v | None \<Rightarrow> a k))"
proof (induction upd arbitrary: a)
  case Nil
  then show ?case by (simp add: apply_update_def)
next
  case (Cons kv upd)
  obtain key v where kv: "kv = (key, v)" by (cases kv)
  have step: "apply_update (kv # upd) a =
      apply_update upd (if hasattr a key then setattr a key v else a)"
    by (simp add: apply_update_def kv)
  show ?case
    unfolding step Cons.IH
    by (auto simp: hasattr_def setattr_def kv map_add_def split: option.splits)
qed

lemma map_of_rev_distinct:
  "distinct (map fst upd) \<Longrightarrow> map_of (rev upd) = map_of upd"
  by (rule ext)
    (metis distinct_rev map_of_eq_Some_iff map_of_eq_None_iff option.exhaust rev_map set_rev)

text \<open>
  Claim C2. For a dictionary \<open>update_data\<close> (keys distinct) and a store that commits:
  when the id names no activity, \<open>CRUDService.update_activity\<close> returns \<open>None\<close> and
  the session is as before; when it names one, the returned activity has, for every key,
  the supplied value if the key is an attribute of the activity and is supplied, the prior
  value if it is an attribute and is not supplied, and no attribute at all if it was none
  (an unknown key is ignored); the row of the activity is replaced by it and no other row
  changes. Supplying only \<open>title\<close> changes the title alone.
\<close>

theorem update_activity_applies_supplied_fields:
  assumes "distinct (map fst update_data)"
  shows
    "(get_activity_by_id s activity_id = Inr None \<longrightarrow>
        CRUDService_update_activity s activity_id update_data = (Inr None, s)) \<and>
     (get_activity_by_id s activity_id = Inr (Some activity) \<and> \<not> commit_fails s \<longrightarrow>
        (\<exists>updated.
           fst (CRUDService_update_activity s activity_id update_data) = Inr (Some updated) \<and>
           (\<forall>key. updated key =
              (if hasattr activity key
               then (case map_of update_data key of Some v \<Rightarrow> Some v | None \<Rightarrow> activity key)
               else None)) \<and>
           activities (snd (CRUDService_update_activity s activity_id update_data)) =
             map (\<lambda>row. if has_id activity_id row then updated else row) (activities s))) \<and>
     (get_activity_by_id s activity_id = Inr (Some activity) \<and> \<not> commit_fails s \<and>
      hasattr activity ''title'' \<longrightarrow>
        fst (CRUDService_update_activity s activity_id [(''title'', v)]) =
          Inr (Some (activity(''title'' \<mapsto> v))))"
proof (intro conjI impI)
  assume "get_activity_by_id s activity_id = Inr None"
  then show "CRUDService_update_activity s activity_id update_data = (Inr None, s)"
    by (simp add: CRUDService_update_activity_def)
next
  assume h: "get_activity_by_id s activity_id = Inr (Some activity) \<and> \<not> commit_fails s"
  let ?u = "apply_update update_data activity"
  have "\<forall>key. ?u key =
      (if hasattr activity key
       then (case map_of update_data key of Some v \<Rightarrow> Some v | None \<Rightarrow> activity key)
       else None)"
    using assms by (simp add: apply_update_lookup map_of_rev_distinct hasattr_def)
  then show "\<exists>updated.
      fst (CRUDService_update_activity s activity_id update_data) = Inr (Some updated) \<and>
      (\<forall>key. updated key =
         (if hasattr activity key
          then (case map_of update_data key of Some v \<Rightarrow> Some v | None \<Rightarrow> activity key)
          else None)) \<and>
      activities (snd (CRUDService_update_activity s activity_id update_data)) =
        map (\<lambda>row. if has_id activity_id row then updated else row) (activities s)"
    using h by (intro exI [of _ ?u]) (simp add: CRUDService_update_activity_def Let_def)
next
  assume "get_activity_by_id s activity_id = Inr (Some activity) \<and> \<not> commit_fails s \<and>
      hasattr activity ''title''"
  then show "fst (CRUDService_update_activity s activity_id [(''title'', v)]) =
          Inr (Some (activity(''title'' \<mapsto> v)))"
    by (simp add: CRUDService_update_activity_def Let_def apply_update_def setattr_def)
qed

theorem update_activity_applies_supplied_fields_witness:
  "distinct (map fst [(''title'', PStr ''Workshop''), (''colour'', PStr ''red'')]) \<and>
   get_activity_by_id example_session 1 = Inr (Some example_activity) \<and>
   \<not> commit_fails example_session \<and>
   hasattr example_activity ''title'' \<and>
   \<not> hasattr example_activity ''colour'' \<and>
   get_activity_by_id example_session 2 = Inr None \<and>
   CRUDService_update_activity example_session 2
     [(''title'', PStr ''Workshop''), (''colour'', PStr ''red'')] = (Inr None, example_session) \<and>
   fst (CRUDService_update_activity example_session 1
     [(''title'', PStr ''Workshop''), (''colour'', PStr ''red'')]) =
     Inr (Some (example_activity(''title'' \<mapsto> PStr ''Workshop''))) \<and>
   fst (CRUDService_update_activity example_session 1 [(''title'', PStr ''Workshop'')]) =
     Inr (Some (example_activity(''title'' \<mapsto> PStr ''Workshop'')))"
proof -
  let ?upd = "[(''title'', PStr ''Workshop''), (''colour'', PStr ''red'')]"
  have d: "distinct (map fst ?upd)" by simp
  have g1: "get_activity_by_id example_session 1 = Inr (Some example_activity)"
    by (simp add: get_activity_by_id_def example_session_def has_id_def example_activity_def)
  have g2: "get_activity_by_id example_session 2 = Inr None"
    by (simp add: get_activity_by_id_def example_session_def has_id_def example_activity_def)
  have c: "\<not> commit_fails example_session" by (simp add: example_session_def)
  have t: "hasattr example_activity ''title''" "\<not> hasattr example_activity ''colour''"
    by (simp_all add: hasattr_def example_activity_def)
  note thm1 =
    update_activity_applies_supplied_fields [OF d, of example_session 1 example_activity]
  note thm2 =
    update_activity_applies_supplied_fields [OF d, of example_session 2 example_activity]
  from thm1 g1 c obtain updated where
    u: "fst (CRUDService_update_activity example_session 1 ?upd) = Inr (Some updated)"
    and k: "\<forall>key. updated key =
      (if hasattr example_activity key
       then (case map_of ?upd key of Some v \<Rightarrow> Some v | None \<Rightarrow> example_activity key)
       else None)"
    by blast
  have "updated = example_activity(''title'' \<mapsto> PStr ''Workshop'')"
  proof (rule ext)
    fix key show "updated key = (example_activity(''title'' \<mapsto> PStr ''Workshop'')) key"
      using k by (simp add: hasattr_def example_activity_def)
  qed
  with u thm1 thm2 g1 g2 c t d show ?thesis by simp
qed

section \<open>The activity-update handler\<close>

lemma update_with_nothing:
  assumes "get_activity_by_id s activity_id = Inr (Some activity)" and "\<not> commit_fails s"
  shows "CRUDService_update_activity s activity_id [] = (Inr (Some activity), s)"
proof -
  have "filter (has_id activity_id) (activities s) = [activity]"
    using assms(1) by (simp add: get_activity_by_id_def scalar_one_or_none_Some)
  then have "map (\<lambda>row. if has_id activity_id row then activity else row) (activities s) =
      activities s"
    by (rule filter_singleton_map_id)
  then show ?thesis
    using assms by (simp add: CRUDService_update_activity_def apply_update_def)
qed

text \<open>
  Claim C10. For an existing activity, a request with no field and no report file calls
  \<open>CRUDService.update_activity\<close> with the empty dictionary; with a store that commits,
  the handler returns the activity as it was, leaves the session as it was and makes no
  call to the media host.
\<close>

theorem update_activity_without_fields_is_noop:
  assumes "get_activity_by_id s activity_id = Inr (Some activity)" and "\<not> commit_fails s"
  shows
    "build_update_data None None None None = [] \<and>
     update_activity host activity_id None None None None None s =
       (fst (CRUDService_update_activity s activity_id []),
        snd (CRUDService_update_activity s activity_id []), []) \<and>
     update_activity host activity_id None None None None None s =
       (Inr (Some activity), s, [])"
  using assms update_with_nothing [OF assms]
  by (simp add: update_activity_def build_update_data_def has_filename_def)

theorem update_activity_without_fields_is_noop_witness:
  "get_activity_by_id example_session 1 = Inr (Some example_activity) \<and>
   \<not> commit_fails example_session \<and>
   update_activity failing_host 1 None None None None None example_session =
     (Inr (Some example_activity), example_session, [])"
proof -
  have g: "get_activity_by_id example_session 1 = Inr (Some example_activity)"
    by (simp add: get_activity_by_id_def example_session_def has_id_def example_activity_def)
  have c: "\<not> commit_fails example_session" by (simp add: example_session_def)
  show ?thesis
    using update_activity_without_fields_is_noop [OF g c, of failing_host] g c by blast
qed

text \<open>The upload block fails whenever the media host refuses the file in every folder.\<close>

lemma upload_new_pdf_fails:
  "\<forall>folder. upload_pdf host file folder = None \<Longrightarrow>
   fst (upload_new_pdf host s activity file) = None"
  by (simp add: upload_new_pdf_def Let_def split: sum.splits option.splits pyval.splits)

text \<open>
  Claim C4. For an existing activity that carries the attribute
  \<open>report_cloudinary_id\<close>, when a replacement file with a PDF name is supplied and the
  media host fails to upload it, the handler raises \<open>ExternalServiceError\<close> (status 502)
  and the session is as before: \<open>CRUDService.update_activity\<close> is never reached, so the
  stored activity, its \<open>report_url\<close> and \<open>report_cloudinary_id\<close> included, is
  unchanged whatever fields the request supplied.
\<close>

theorem update_activity_upload_failure_changes_nothing:
  assumes "get_activity_by_id s activity_id = Inr (Some activity)"
    and "activity ''report_cloudinary_id'' = Some old_id"
    and "validate_pdf_file file = Inr ()"
    and "\<forall>folder. upload_pdf host file folder = None"
  shows
    "fst (update_activity host activity_id title description activity_date
            faculty_coordinator (Some file) s) =
       Inl (ExternalServiceError ''Cloudinary'' ''Failed to upload PDF report'') \<and>
     status_code (ExternalServiceError ''Cloudinary'' ''Failed to upload PDF report'') = 502 \<and>
     fst (snd (update_activity host activity_id title description activity_date
            faculty_coordinator (Some file) s)) = s \<and>
     get_activity_by_id
       (fst (snd (update_activity host activity_id title description activity_date
            faculty_coordinator (Some file) s))) activity_id = Inr (Some activity)"
proof -
  have hf: "has_filename (Some file)"
    using assms(3)
    by (auto simp: validate_pdf_file_def has_filename_def split: option.splits if_splits)
  have up: "fst (upload_new_pdf host s activity file) = None"
    using assms(4) by (rule upload_new_pdf_fails)
  have "update_activity host activity_id title description activity_date
            faculty_coordinator (Some file) s =
      (Inl (ExternalServiceError ''Cloudinary'' ''Failed to upload PDF report''), s,
       (if py_truthy old_id then [DeleteMedia old_id ''raw''] else []) @
       snd (upload_new_pdf host s activity file))"
    using assms(1,2,3) hf up
    by (simp add: update_activity_def getattr_def Let_def split_beta)
  then show ?thesis using assms(1) by simp
qed

theorem update_activity_upload_failure_changes_nothing_witness:
  "get_activity_by_id example_session 1 = Inr (Some example_activity) \<and>
   example_activity ''report_cloudinary_id'' = Some (PStr ''r1'') \<and>
   validate_pdf_file example_pdf = Inr () \<and>
   (\<forall>folder. upload_pdf failing_host example_pdf folder = None) \<and>
   fst (update_activity failing_host 1 (Some ''New title'') None None None
          (Some example_pdf) example_session) =
     Inl (ExternalServiceError ''Cloudinary'' ''Failed to upload PDF report'') \<and>
   fst (snd (update_activity failing_host 1 (Some ''New title'') None None None
          (Some example_pdf) example_session)) = example_session"
proof -
  have g: "get_activity_by_id example_session 1 = Inr (Some example_activity)"
    by (simp add: get_activity_by_id_def example_session_def has_id_def example_activity_def)
  have r: "example_activity ''report_cloudinary_id'' = Some (PStr ''r1'')"
    by (simp add: example_activity_def)
  have v: "validate_pdf_file example_pdf = Inr ()"
    by (simp add: validate_pdf_file_def example_pdf_def file_ext_def rsplit1_def
        py_lower_def py_lower_char_def ALLOWED_PDF_EXTENSIONS_def)
  have u: "\<forall>folder. upload_pdf failing_host example_pdf folder = None"
    by (simp add: failing_host_def)
  show ?thesis
    using update_activity_upload_failure_changes_nothing
      [OF g r v u, of "Some ''New title''" None None None] g r v u
    by simp
qed

section \<open>The delete-photo handler\<close>

text \<open>
  Claim C6. For an existing photo and a store that commits, the handler asks the media
  host once to delete the asset, removes the row and succeeds, whatever the media host
  answers: the outcome is the same on a host whose deletion raises. For an id that names
  no photo it raises \<open>NotFoundError\<close> (status 404), calls the media host not at all and
  leaves the session as it was.
\<close>

theorem delete_photo_swallows_media_failure:
  "(get_photo_by_id s photo_id = Inr (Some ph) \<and> \<not> commit_fails s \<longrightarrow>
      delete_photo host photo_id s =
        (Inr ''Photo deleted successfully'',
         s\<lparr>photos := filter (\<lambda>p. p_id p \<noteq> Some photo_id) (photos s)\<rparr>,
         [DeleteMedia (PStr (p_cloudinary_id ph)) ''image'']) \<and>
      get_photo_by_id (fst (snd (delete_photo host photo_id s))) photo_id = Inr None \<and>
      delete_photo host photo_id s = delete_photo failing_host photo_id s) \<and>
   (get_photo_by_id s photo_id = Inr None \<longrightarrow>
      delete_photo host photo_id s =
        (Inl (NotFoundError ''Photo'' (Identifier photo_id)), s, []) \<and>
      status_code (NotFoundError ''Photo'' (Identifier photo_id)) = 404)"
  by (auto simp: delete_photo_def CRUDService_delete_photo_def Let_def get_photo_by_id_def
      scalar_one_or_none_None filter_empty_conv)

theorem delete_photo_swallows_media_failure_witness:
  "get_photo_by_id example_session 5 = Inr (Some example_photo) \<and>
   \<not> commit_fails example_session \<and>
   \<not> delete_media failing_host (PStr ''p5'') ''image'' \<and>
   delete_photo failing_host 5 example_session =
     (Inr ''Photo deleted successfully'', example_session\<lparr>photos := []\<rparr>,
      [DeleteMedia (PStr ''p5'') ''image'']) \<and>
   get_photo_by_id example_session 6 = Inr None \<and>
   delete_photo failing_host 6 example_session =
     (Inl (NotFoundError ''Photo'' (Identifier 6)), example_session, [])"
proof -
  have g5: "get_photo_by_id example_session 5 = Inr (Some example_photo)"
    by (simp add: get_photo_by_id_def example_session_def example_photo_def)
  have g6: "get_photo_by_id example_session 6 = Inr None"
    by (simp add: get_photo_by_id_def example_session_def example_photo_def)
  have c: "\<not> commit_fails example_session" by (simp add: example_session_def)
  have d: "\<not> delete_media failing_host (PStr ''p5'') ''image''"
    by (simp add: failing_host_def)
  have f: "filter (\<lambda>p. p_id p \<noteq> Some 5) (photos example_session) = []"
    by (simp add: example_session_def example_photo_def)
  have i: "p_cloudinary_id example_photo = ''p5''" by (simp add: example_photo_def)
  show ?thesis
    using delete_photo_swallows_media_failure [of example_session 5 example_photo failing_host]
      delete_photo_swallows_media_failure [of example_session 6 example_photo failing_host]
      g5 g6 c d f i
    by simp
qed

section \<open>Pagination of the photo listing\<close>

text \<open>
  Claim C5. Every request of the photo listing that supplies a \<open>limit\<close> below 1 or
  above 500, or an \<open>offset\<close> below 0, is rejected with a validation error (status 422)
  that names exactly the offending parameters, whether or not the other parameter is
  supplied and whatever the session holds; no list is returned for it, clamped or not.
  Every other request for an existing wing has the supplied values handed to the data
  access as they are, with 100 for an absent \<open>limit\<close> and 0 for an absent \<open>offset\<close>.
\<close>

theorem get_wing_photos_rejects_out_of_range:
  "(((\<exists>limit. raw_limit = Some limit \<and> (limit < 1 \<or> 500 < limit)) \<or>
     (\<exists>offset. raw_offset = Some offset \<and> offset < 0)) \<longrightarrow>
      (\<exists>offences.
         get_wing_photos slug raw_limit raw_offset s = Inl (RequestValidationError offences) \<and>
         offences \<noteq> [] \<and>
         (''limit'' \<in> set offences \<longleftrightarrow>
            (\<exists>limit. raw_limit = Some limit \<and> (limit < 1 \<or> 500 < limit))) \<and>
         (''offset'' \<in> set offences \<longleftrightarrow> (\<exists>offset. raw_offset = Some offset \<and> offset < 0)) \<and>
         status_code (RequestValidationError offences) = 422)) \<and>
   ((\<forall>limit. raw_limit = Some limit \<longrightarrow> 1 \<le> limit \<and> limit \<le> 500) \<and>
    (\<forall>offset. raw_offset = Some offset \<longrightarrow> 0 \<le> offset) \<and>
    get_wing_by_slug s slug = Inr (Some w) \<longrightarrow>
      get_wing_photos slug raw_limit raw_offset s =
        Inr (get_photos_by_wing s (w_id w)
               (case raw_limit of None \<Rightarrow> 100 | Some limit \<Rightarrow> limit)
               (case raw_offset of None \<Rightarrow> 0 | Some offset \<Rightarrow> offset)))"
proof (cases raw_limit; cases raw_offset)
qed (auto simp: get_wing_photos_def query_offences_def query_ok_def query_value_def
      limit_query_def offset_query_def Let_def)

theorem get_wing_photos_rejects_out_of_range_witness:
  "get_wing_by_slug example_session ''codezero'' = Inr (Some example_wing) \<and>
   get_wing_photos ''codezero'' (Some 0) None example_session =
     Inl (RequestValidationError [''limit'']) \<and>
   get_wing_photos ''codezero'' (Some 501) None example_session =
     Inl (RequestValidationError [''limit'']) \<and>
   get_wing_photos ''codezero'' None (Some (- 1)) example_session =
     Inl (RequestValidationError [''offset'']) \<and>
   get_wing_photos ''codezero'' (Some 0) (Some (- 1)) example_session =
     Inl (RequestValidationError [''limit'', ''offset'']) \<and>
   get_wing_photos ''codezero'' (Some 500) (Some 0) example_session = Inr [example_photo] \<and>
   get_wing_photos ''codezero'' (Some 1) None example_session = Inr [example_photo] \<and>
   get_wing_photos ''codezero'' None (Some 1) example_session = Inr [] \<and>
   get_wing_photos ''codezero'' None None example_session = Inr [example_photo]"
proof -
  have g: "get_wing_by_slug example_session ''codezero'' = Inr (Some example_wing)"
    by (simp add: get_wing_by_slug_def example_session_def example_wing_def)
  have l: "get_photos_by_wing example_session (w_id example_wing) 500 0 = [example_photo]"
    "get_photos_by_wing example_session (w_id example_wing) 100 0 = [example_photo]"
    "get_photos_by_wing example_session (w_id example_wing) 1 0 = [example_photo]"
    "get_photos_by_wing example_session (w_id example_wing) 100 1 = []"
    by (simp_all add: get_photos_by_wing_def example_session_def example_wing_def
        example_photo_def)
  note t = get_wing_photos_rejects_out_of_range
  have a: "get_wing_photos ''codezero'' (Some 0) None example_session =
      Inl (RequestValidationError [''limit''])"
    "get_wing_photos ''codezero'' (Some 501) None example_session =
      Inl (RequestValidationError [''limit''])"
    "get_wing_photos ''codezero'' None (Some (- 1)) example_session =
      Inl (RequestValidationError [''offset''])"
    "get_wing_photos ''codezero'' (Some 0) (Some (- 1)) example_session =
      Inl (RequestValidationError [''limit'', ''offset''])"
    by (simp_all add: get_wing_photos_def query_offences_def query_ok_def
        limit_query_def offset_query_def)
  have b: "get_wing_photos ''codezero'' (Some 500) (Some 0) example_session =
      Inr [example_photo]"
    using t [of "Some 500" "Some 0" "''codezero''" example_session example_wing] g l
    by simp
  have c: "get_wing_photos ''codezero'' (Some 1) None example_session = Inr [example_photo]"
    using t [of "Some 1" None "''codezero''" example_session example_wing] g l
    by simp
  have d: "get_wing_photos ''codezero'' None (Some 1) example_session = Inr []"
    using t [of None "Some 1" "''codezero''" example_session example_wing] g l
    by simp
  have e: "get_wing_photos ''codezero'' None None example_session = Inr [example_photo]"
    using t [of None None "''codezero''" example_session example_wing] g l
    by simp
  have r: "\<exists>offences. get_wing_photos ''codezero'' (Some 0) None example_session =
      Inl (RequestValidationError offences) \<and> offences \<noteq> []"
    using t [of "Some 0" None "''codezero''" example_session example_wing]
    by auto
  from g a b c d e r show ?thesis by simp
qed

section \<open>Validation of an image file\<close>

text \<open>The extension of a name split at its last dot, and of a name without a dot.\<close>

lemma last_rsplit1:
  assumes "sep \<notin> set suf"
  shows "last (rsplit1 sep (pre @ sep # suf)) = suf"
proof -
  have "takeWhile (\<lambda>c. c \<noteq> sep) (rev suf @ sep # rev pre) = rev suf"
    using assms by (auto simp: takeWhile_tail)
  then show ?thesis by (simp add: rsplit1_def)
qed

lemma file_ext_split:
  "CHR ''.'' \<notin> set suf \<Longrightarrow> file_ext (pre @ CHR ''.'' # suf) = CHR ''.'' # py_lower suf"
  by (simp add: file_ext_def last_rsplit1)

lemma file_ext_no_dot: "CHR ''.'' \<notin> set name \<Longrightarrow> file_ext name = []"
  by (simp add: file_ext_def)

lemma validate_image_file_accepts:
  "(validate_image_file file = Inr ()) \<longleftrightarrow>
   (\<exists>pre suf. filename file = Some (pre @ CHR ''.'' # suf) \<and> CHR ''.'' \<notin> set suf \<and>
      CHR ''.'' # py_lower suf \<in> ALLOWED_IMAGE_EXTENSIONS)"
proof
  assume ok: "validate_image_file file = Inr ()"
  then obtain name where n: "filename file = Some name" "name \<noteq> []"
    "file_ext name \<in> ALLOWED_IMAGE_EXTENSIONS"
    by (auto simp: validate_image_file_def split: option.splits if_splits)
  have "CHR ''.'' \<in> set name"
    using n(3) by (auto simp: file_ext_def ALLOWED_IMAGE_EXTENSIONS_def split: if_splits)
  then obtain pre suf where s: "name = pre @ CHR ''.'' # suf" "CHR ''.'' \<notin> set suf"
    by (auto dest: split_list_last)
  with n show "\<exists>pre suf. filename file = Some (pre @ CHR ''.'' # suf) \<and> CHR ''.'' \<notin> set suf \<and>
      CHR ''.'' # py_lower suf \<in> ALLOWED_IMAGE_EXTENSIONS"
    by (auto simp: file_ext_split)
next
  assume "\<exists>pre suf. filename file = Some (pre @ CHR ''.'' # suf) \<and> CHR ''.'' \<notin> set suf \<and>
      CHR ''.'' # py_lower suf \<in> ALLOWED_IMAGE_EXTENSIONS"
  then show "validate_image_file file = Inr ()"
    by (auto simp: validate_image_file_def file_ext_split)
qed



text \<open>
  Claim C9. \<open>validate_image_file\<close> accepts a file exactly when its filename is some
  \<open>pre @ "." @ suf\<close> with no dot in \<open>suf\<close> (so \<open>suf\<close> is the final dot-separated
  suffix, and the name is not empty) and \<open>"." @ lower suf\<close> is an allowed extension.
  Every rejection of a non-empty name is a \<open>FileUploadError\<close> (status 400), in
  particular that of a name with no dot; a missing or empty name is rejected with
  \<open>ValidationError\<close> (status 422). Two suffixes that differ in case only are decided
  alike, and \<open>photo.JPG\<close> is accepted.
\<close>

theorem validate_image_file_decision:
  "((validate_image_file file = Inr ()) \<longleftrightarrow>
      (\<exists>pre suf. filename file = Some (pre @ CHR ''.'' # suf) \<and> CHR ''.'' \<notin> set suf \<and>
         CHR ''.'' # py_lower suf \<in> ALLOWED_IMAGE_EXTENSIONS)) \<and>
   (filename file = Some name \<and> name \<noteq> [] \<and> validate_image_file file \<noteq> Inr () \<longrightarrow>
      validate_image_file file = Inl (FileUploadError name) \<and>
      status_code (FileUploadError name) = 400) \<and>
   (filename file = Some name \<and> name \<noteq> [] \<and> CHR ''.'' \<notin> set name \<longrightarrow>
      validate_image_file file = Inl (FileUploadError name)) \<and>
   (filename file = None \<or> filename file = Some [] \<longrightarrow>
      validate_image_file file = Inl (ValidationError ''File must have a filename'') \<and>
      status_code (ValidationError ''File must have a filename'') = 422) \<and>
   (py_lower suf = py_lower suf' \<and> CHR ''.'' \<notin> set suf \<and> CHR ''.'' \<notin> set suf' \<longrightarrow>
      (validate_image_file \<lparr>filename = Some (pre @ CHR ''.'' # suf), content = c\<rparr> = Inr ()) =
      (validate_image_file \<lparr>filename = Some (pre' @ CHR ''.'' # suf'), content = c'\<rparr> = Inr ())) \<and>
   validate_image_file \<lparr>filename = Some ''photo.JPG'', content = c\<rparr> = Inr ()"
proof (intro conjI impI)
  show "(validate_image_file file = Inr ()) \<longleftrightarrow>
      (\<exists>pre suf. filename file = Some (pre @ CHR ''.'' # suf) \<and> CHR ''.'' \<notin> set suf \<and>
         CHR ''.'' # py_lower suf \<in> ALLOWED_IMAGE_EXTENSIONS)"
    by (rule validate_image_file_accepts)
next
  assume "filename file = Some name \<and> name \<noteq> [] \<and> validate_image_file file \<noteq> Inr ()"
  then show "validate_image_file file = Inl (FileUploadError name)"
    by (clarsimp simp: validate_image_file_def split: if_splits)
next
  show "status_code (FileUploadError name) = 400" by simp
next
  assume "filename file = Some name \<and> name \<noteq> [] \<and> CHR ''.'' \<notin> set name"
  then show "validate_image_file file = Inl (FileUploadError name)"
    by (clarsimp simp: validate_image_file_def file_ext_no_dot ALLOWED_IMAGE_EXTENSIONS_def)
next
  assume "filename file = None \<or> filename file = Some []"
  then show "validate_image_file file = Inl (ValidationError ''File must have a filename'')"
    by (auto simp: validate_image_file_def)
next
  show "status_code (ValidationError ''File must have a filename'') = 422" by simp
next
  assume "py_lower suf = py_lower suf' \<and> CHR ''.'' \<notin> set suf \<and> CHR ''.'' \<notin> set suf'"
  then show "(validate_image_file \<lparr>filename = Some (pre @ CHR ''.'' # suf), content = c\<rparr> = Inr ()) =
      (validate_image_file \<lparr>filename = Some (pre' @ CHR ''.'' # suf'), content = c'\<rparr> = Inr ())"
    by (clarsimp simp: validate_image_file_def file_ext_split)
next
  have "file_ext (''photo'' @ CHR ''.'' # ''JPG'') = CHR ''.'' # py_lower ''JPG''"
    by (rule file_ext_split) simp
  moreover have "py_lower ''JPG'' = ''jpg''"
    by (simp add: py_lower_def py_lower_char_def)
  ultimately have "file_ext ''photo.JPG'' = ''.jpg''" by simp
  then show "validate_image_file \<lparr>filename = Some ''photo.JPG'', content = c\<rparr> = Inr ()"
    by (simp add: validate_image_file_def ALLOWED_IMAGE_EXTENSIONS_def)
qed


theorem validate_image_file_decision_witness:
  "validate_image_file \<lparr>filename = Some ''photo.JPG'', content = []\<rparr> = Inr () \<and>
   validate_image_file \<lparr>filename = Some ''jpg'', content = []\<rparr> =
     Inl (FileUploadError ''jpg'') \<and>
   validate_image_file \<lparr>filename = Some [], content = []\<rparr> =
     Inl (ValidationError ''File must have a filename'') \<and>
   validate_image_file \<lparr>filename = None, content = []\<rparr> =
     Inl (ValidationError ''File must have a filename'')"
proof -
  note t1 = validate_image_file_decision
    [of "\<lparr>filename = Some ''jpg'', content = []\<rparr>" "''jpg''" _ _ _ "[]"]
  note t2 = validate_image_file_decision
    [of "\<lparr>filename = Some [], content = []\<rparr>" _ _ _ _ "[]"]
  note t3 = validate_image_file_decision
    [of "\<lparr>filename = None, content = []\<rparr>" _ _ _ _ "[]"]
  have a: "validate_image_file \<lparr>filename = Some ''photo.JPG'', content = []\<rparr> = Inr ()"
    using t1 by blast
  have h: "filename \<lparr>filename = Some ''jpg'', content = []\<rparr> = Some ''jpg'' \<and> ''jpg'' \<noteq> [] \<and>
      CHR ''.'' \<notin> set ''jpg''"
    by simp
  have b: "validate_image_file \<lparr>filename = Some ''jpg'', content = []\<rparr> =
      Inl (FileUploadError ''jpg'')"
    using t1 h by blast
  have "filename \<lparr>filename = Some [], content = []\<rparr> = Some []" by simp
  then have c: "validate_image_file \<lparr>filename = Some [], content = []\<rparr> =
      Inl (ValidationError ''File must have a filename'')"
    using t2 by blast
  have "filename \<lparr>filename = None, content = []\<rparr> = None" by simp
  then have d: "validate_image_file \<lparr>filename = None, content = []\<rparr> =
      Inl (ValidationError ''File must have a filename'')"
    using t3 by blast
  from a b c d show ?thesis by blast
qed

section \<open>The bulk photo upload\<close>

lemma validate_all_Inr:
  "validate_all files = Inr () \<longleftrightarrow> (\<forall>f \<in> set files. validate_image_file f = Inr ())"
  by (induction files) (auto split: sum.splits)

lemma validate_all_Inl:
  "validate_all files = Inl e \<longleftrightarrow>
   (\<exists>pre f post. files = pre @ f # post \<and> (\<forall>g \<in> set pre. validate_image_file g = Inr ()) \<and>
      validate_image_file f = Inl e)"
proof (induction files)
  case Nil
  then show ?case by simp
next
  case (Cons a files)
  show ?case
  proof (cases "validate_image_file a")
    case (Inl e')
    show ?thesis
    proof
      assume "validate_all (a # files) = Inl e"
      with Inl have "e' = e" by simp
      with Inl have "a # files = [] @ a # files \<and> (\<forall>g \<in> set []. validate_image_file g = Inr ()) \<and>
          validate_image_file a = Inl e" by simp
      then show "\<exists>pre f post. a # files = pre @ f # post \<and>
          (\<forall>g \<in> set pre. validate_image_file g = Inr ()) \<and> validate_image_file f = Inl e"
        by blast
    next
      assume "\<exists>pre f post. a # files = pre @ f # post \<and>
          (\<forall>g \<in> set pre. validate_image_file g = Inr ()) \<and> validate_image_file f = Inl e"
      then obtain pre f post where p: "a # files = pre @ f # post"
        "\<forall>g \<in> set pre. validate_image_file g = Inr ()" "validate_image_file f = Inl e"
        by blast
      have "pre = []"
      proof (cases pre)
        case Nil then show ?thesis .
      next
        case (Cons b pre')
        with p(1) have "b = a" by simp
        with p(2) Cons Inl show ?thesis by simp
      qed
      with p Inl show "validate_all (a # files) = Inl e" by simp
    qed
  next
    case (Inr u)
    show ?thesis
    proof
      assume "validate_all (a # files) = Inl e"
      with Inr Cons.IH obtain pre f post where p: "files = pre @ f # post"
        "\<forall>g \<in> set pre. validate_image_file g = Inr ()" "validate_image_file f = Inl e"
        by auto
      with Inr have "a # files = (a # pre) @ f # post \<and>
          (\<forall>g \<in> set (a # pre). validate_image_file g = Inr ()) \<and> validate_image_file f = Inl e"
        by simp
      then show "\<exists>pre f post. a # files = pre @ f # post \<and>
          (\<forall>g \<in> set pre. validate_image_file g = Inr ()) \<and> validate_image_file f = Inl e"
        by blast
    next
      assume "\<exists>pre f post. a # files = pre @ f # post \<and>
          (\<forall>g \<in> set pre. validate_image_file g = Inr ()) \<and> validate_image_file f = Inl e"
      then obtain pre f post where p: "a # files = pre @ f # post"
        "\<forall>g \<in> set pre. validate_image_file g = Inr ()" "validate_image_file f = Inl e"
        by blast
      from p(1,3) Inr obtain pre' where q: "pre = a # pre'"
        by (cases pre) auto
      with p have "files = pre' @ f # post \<and> (\<forall>g \<in> set pre'. validate_image_file g = Inr ()) \<and>
          validate_image_file f = Inl e" by simp
      then have "validate_all files = Inl e" using Cons.IH by blast
      with Inr show "validate_all (a # files) = Inl e" by simp
    qed
  qed
qed

lemma validate_image_file_error:
  "validate_image_file f = Inl e \<Longrightarrow>
   ((filename f = None \<or> filename f = Some []) \<and>
    e = ValidationError ''File must have a filename'') \<or>
   (\<exists>name. filename f = Some name \<and> name \<noteq> [] \<and>
      file_ext name \<notin> ALLOWED_IMAGE_EXTENSIONS \<and> e = FileUploadError name)"
  by (auto simp: validate_image_file_def split: option.splits if_splits)

lemma validate_image_file_named_error:
  "validate_image_file f = Inl e \<Longrightarrow> filename f = Some name \<Longrightarrow> name \<noteq> [] \<Longrightarrow>
   e = FileUploadError name"
  by (auto simp: validate_image_file_def split: option.splits if_splits)



lemma created_unchanged_field:
  assumes "\<And>p i. h (p\<lparr>p_id := Some (k + int i), p_uploaded_at := Some t\<rparr>) = h p"
  shows "map h (map (\<lambda>(i, p). p\<lparr>p_id := Some (k + int i), p_uploaded_at := Some t\<rparr>)
      (enumerate n xs)) = map h xs"
  using assms by (induction xs arbitrary: n) simp_all

lemma created_ids:
  "map p_id (map (\<lambda>(i, p). p\<lparr>p_id := Some (k + int i), p_uploaded_at := Some t\<rparr>)
      (enumerate n xs)) = map (\<lambda>i. Some (k + int i)) [n ..< n + length xs]"
proof -
  have "map p_id (map (\<lambda>(i, p). p\<lparr>p_id := Some (k + int i), p_uploaded_at := Some t\<rparr>)
      (enumerate n xs)) = map (\<lambda>i. Some (k + int i)) (map fst (enumerate n xs))"
    by (simp add: case_prod_beta comp_def del: map_fst_enumerate)
  then show ?thesis by simp
qed


lemma upload_photos_invalid:
  assumes "get_wing_by_id s wid = Inr (Some w)" and "validate_all files = Inl e"
  shows "upload_photos host wid files s = (Inl e, s, [])"
  using assms by (simp add: upload_photos_def)

lemma upload_photos_host_failure:
  assumes "get_wing_by_id s wid = Inr (Some w)" and "validate_all files = Inr ()"
    and "upload_images_bulk host files (''anvaya/'' @ w_slug w) = None"
  shows "upload_photos host wid files s =
     (Inl (ExternalServiceError ''Cloudinary'' ''Failed to upload images''), s,
      [UploadImagesBulk files (''anvaya/'' @ w_slug w)])"
  using assms by (simp add: upload_photos_def)

lemma upload_photos_success:
  assumes "get_wing_by_id s wid = Inr (Some w)" and "validate_all files = Inr ()"
    and "upload_images_bulk host files (''anvaya/'' @ w_slug w) = Some ups"
  shows "upload_photos host wid files s =
     (fst (CRUDService_create_photos_bulk s
             (map (\<lambda>r. Photo wid (url r) (public_id r)) ups)),
      snd (CRUDService_create_photos_bulk s
             (map (\<lambda>r. Photo wid (url r) (public_id r)) ups)),
      [UploadImagesBulk files (''anvaya/'' @ w_slug w)])"
  using assms by (simp add: upload_photos_def split_beta Let_def)

text \<open>
  Claim C3. The bulk photo upload for an existing wing. If some file fails validation,
  the request fails with the error of the first such file, before any call to the media
  host and with the session unchanged: that error is a file-upload error for a named file
  whose extension is not allowed and a validation error for a file without a name, so it
  is a file-upload error whenever every file has a non-empty name. If all files are valid
  and the host fails the upload, the request fails with an external-service error and the
  session is unchanged. If all files are valid and the upload succeeds, the store is asked
  once, under the folder \<open>anvaya/<slug>\<close>: when it commits, exactly one photo row per
  uploaded asset is appended, carrying the asset's address and identifier, the wing and a
  fresh id; when it refuses, no row is kept. For an unknown wing the request fails with a
  not-found error before any file is looked at.
\<close>

theorem upload_photos_all_or_nothing:
  "(get_wing_by_id s wid = Inr None \<longrightarrow>
      upload_photos host wid files s = (Inl (NotFoundError ''Wing'' (Identifier wid)), s, [])) \<and>
   (get_wing_by_id s wid = Inr (Some w) \<longrightarrow>
     ((\<exists>f \<in> set files. validate_image_file f \<noteq> Inr ()) \<longrightarrow>
        (\<exists>pre f post e.
           files = pre @ f # post \<and> (\<forall>g \<in> set pre. validate_image_file g = Inr ()) \<and>
           validate_image_file f = Inl e \<and>
           (((filename f = None \<or> filename f = Some []) \<and>
             e = ValidationError ''File must have a filename'') \<or>
            (\<exists>name. filename f = Some name \<and> name \<noteq> [] \<and>
               file_ext name \<notin> ALLOWED_IMAGE_EXTENSIONS \<and> e = FileUploadError name)) \<and>
           upload_photos host wid files s = (Inl e, s, []))) \<and>
     ((\<exists>f \<in> set files. validate_image_file f \<noteq> Inr ()) \<and>
      (\<forall>f \<in> set files. \<exists>name. filename f = Some name \<and> name \<noteq> []) \<longrightarrow>
        (\<exists>name. upload_photos host wid files s = (Inl (FileUploadError name), s, []))) \<and>
     ((\<forall>f \<in> set files. validate_image_file f = Inr ()) \<and>
      upload_images_bulk host files (''anvaya/'' @ w_slug w) = None \<longrightarrow>
        upload_photos host wid files s =
          (Inl (ExternalServiceError ''Cloudinary'' ''Failed to upload images''), s,
           [UploadImagesBulk files (''anvaya/'' @ w_slug w)])) \<and>
     ((\<forall>f \<in> set files. validate_image_file f = Inr ()) \<and>
      upload_images_bulk host files (''anvaya/'' @ w_slug w) = Some ups \<and> commit_fails s \<longrightarrow>
        upload_photos host wid files s =
          (Inl StoreError, s, [UploadImagesBulk files (''anvaya/'' @ w_slug w)])) \<and>
     ((\<forall>f \<in> set files. validate_image_file f = Inr ()) \<and>
      upload_images_bulk host files (''anvaya/'' @ w_slug w) = Some ups \<and> \<not> commit_fails s \<longrightarrow>
        (\<exists>created.
           upload_photos host wid files s =
             (Inr created,
              s\<lparr>photos := photos s @ created,
                photo_seq := photo_seq s + int (length ups)\<rparr>,
              [UploadImagesBulk files (''anvaya/'' @ w_slug w)]) \<and>
           length created = length ups \<and>
           map p_url created = map url ups \<and>
           map p_cloudinary_id created = map public_id ups \<and>
           map p_wing_id created = map (\<lambda>r. wid) ups \<and>
           map p_id created = map (\<lambda>i. Some (photo_seq s + int i)) [0 ..< length ups])))"
proof (intro conjI impI)
  assume "get_wing_by_id s wid = Inr None"
  then show "upload_photos host wid files s =
      (Inl (NotFoundError ''Wing'' (Identifier wid)), s, [])"
    by (simp add: upload_photos_def)
next
  assume assms: "get_wing_by_id s wid = Inr (Some w)"
  assume "\<exists>f \<in> set files. validate_image_file f \<noteq> Inr ()"
  then have "validate_all files \<noteq> Inr ()" by (simp add: validate_all_Inr)
  then obtain e where e: "validate_all files = Inl e"
    by (cases "validate_all files") auto
  then obtain pre f post where p: "files = pre @ f # post"
    "\<forall>g \<in> set pre. validate_image_file g = Inr ()" "validate_image_file f = Inl e"
    unfolding validate_all_Inl by blast
  note validate_image_file_error [OF p(3)]
  with p upload_photos_invalid [OF assms e]
  show "\<exists>pre f post e.
      files = pre @ f # post \<and> (\<forall>g \<in> set pre. validate_image_file g = Inr ()) \<and>
      validate_image_file f = Inl e \<and>
      (((filename f = None \<or> filename f = Some []) \<and>
        e = ValidationError ''File must have a filename'') \<or>
       (\<exists>name. filename f = Some name \<and> name \<noteq> [] \<and>
          file_ext name \<notin> ALLOWED_IMAGE_EXTENSIONS \<and> e = FileUploadError name)) \<and>
      upload_photos host wid files s = (Inl e, s, [])"
    by blast
next
  assume assms: "get_wing_by_id s wid = Inr (Some w)"
  assume h: "(\<exists>f \<in> set files. validate_image_file f \<noteq> Inr ()) \<and>
      (\<forall>f \<in> set files. \<exists>name. filename f = Some name \<and> name \<noteq> [])"
  then have "validate_all files \<noteq> Inr ()" by (simp add: validate_all_Inr)
  then obtain e where e: "validate_all files = Inl e"
    by (cases "validate_all files") auto
  then obtain pre f post where p: "files = pre @ f # post" "validate_image_file f = Inl e"
    unfolding validate_all_Inl by blast
  from p(1) h obtain name where "filename f = Some name" "name \<noteq> []" by auto
  with p(2) have "e = FileUploadError name" by (rule validate_image_file_named_error)
  with upload_photos_invalid [OF assms e]
  show "\<exists>name. upload_photos host wid files s = (Inl (FileUploadError name), s, [])"
    by blast
next
  assume assms: "get_wing_by_id s wid = Inr (Some w)"
  assume "(\<forall>f \<in> set files. validate_image_file f = Inr ()) \<and>
      upload_images_bulk host files (''anvaya/'' @ w_slug w) = None"
  then show "upload_photos host wid files s =
      (Inl (ExternalServiceError ''Cloudinary'' ''Failed to upload images''), s,
       [UploadImagesBulk files (''anvaya/'' @ w_slug w)])"
    using upload_photos_host_failure [OF assms] by (simp add: validate_all_Inr)
next
  assume assms: "get_wing_by_id s wid = Inr (Some w)"
  assume h: "(\<forall>f \<in> set files. validate_image_file f = Inr ()) \<and>
      upload_images_bulk host files (''anvaya/'' @ w_slug w) = Some ups \<and> commit_fails s"
  then have v: "validate_all files = Inr ()" by (simp add: validate_all_Inr)
  from h have u: "upload_images_bulk host files (''anvaya/'' @ w_slug w) = Some ups" by simp
  from h show "upload_photos host wid files s =
      (Inl StoreError, s, [UploadImagesBulk files (''anvaya/'' @ w_slug w)])"
    unfolding upload_photos_success [OF assms v u]
    by (simp add: CRUDService_create_photos_bulk_def)
next
  assume assms: "get_wing_by_id s wid = Inr (Some w)"
  assume h: "(\<forall>f \<in> set files. validate_image_file f = Inr ()) \<and>
      upload_images_bulk host files (''anvaya/'' @ w_slug w) = Some ups \<and> \<not> commit_fails s"
  then have v: "validate_all files = Inr ()" by (simp add: validate_all_Inr)
  from h have u: "upload_images_bulk host files (''anvaya/'' @ w_slug w) = Some ups" by simp
  let ?new = "map (\<lambda>r. Photo wid (url r) (public_id r)) ups"
  let ?created = "map (\<lambda>(i, p). p\<lparr>p_id := Some (photo_seq s + int i),
      p_uploaded_at := Some (clock s)\<rparr>) (enumerate 0 ?new)"
  have r: "upload_photos host wid files s =
      (Inr ?created,
       s\<lparr>photos := photos s @ ?created, photo_seq := photo_seq s + int (length ups)\<rparr>,
       [UploadImagesBulk files (''anvaya/'' @ w_slug w)])"
    unfolding upload_photos_success [OF assms v u] using h
    by (simp add: CRUDService_create_photos_bulk_def Let_def)
  have l: "length ?created = length ups" by simp
  have "map p_url ?created = map p_url ?new"
    by (rule created_unchanged_field) simp
  then have f1: "map p_url ?created = map url ups"
    by (simp add: Photo_def comp_def)
  have "map p_cloudinary_id ?created = map p_cloudinary_id ?new"
    by (rule created_unchanged_field) simp
  then have f2: "map p_cloudinary_id ?created = map public_id ups"
    by (simp add: Photo_def comp_def)
  have "map p_wing_id ?created = map p_wing_id ?new"
    by (rule created_unchanged_field) simp
  then have f3: "map p_wing_id ?created = map (\<lambda>r. wid) ups"
    by (simp add: Photo_def comp_def)
  have f4: "map p_id ?created = map (\<lambda>i. Some (photo_seq s + int i)) [0 ..< length ups]"
    using created_ids [where k = "photo_seq s" and t = "clock s" and n = 0 and xs = ?new]
    by simp
  from r l f1 f2 f3 f4
  show "\<exists>created.
      upload_photos host wid files s =
        (Inr created,
         s\<lparr>photos := photos s @ created, photo_seq := photo_seq s + int (length ups)\<rparr>,
         [UploadImagesBulk files (''anvaya/'' @ w_slug w)]) \<and>
      length created = length ups \<and>
      map p_url created = map url ups \<and>
      map p_cloudinary_id created = map public_id ups \<and>
      map p_wing_id created = map (\<lambda>r. wid) ups \<and>
      map p_id created = map (\<lambda>i. Some (photo_seq s + int i)) [0 ..< length ups]"
    by blast
qed


lemma example_files_validated:
  "validate_image_file jpg_file = Inr ()"
  "validate_image_file png_file = Inr ()"
  "validate_image_file exe_file = Inl (FileUploadError ''a.exe'')"
  "validate_image_file nameless_file = Inl (ValidationError ''File must have a filename'')"
  by (simp_all add: validate_image_file_def jpg_file_def png_file_def exe_file_def
      nameless_file_def file_ext_def rsplit1_def py_lower_def py_lower_char_def
      ALLOWED_IMAGE_EXTENSIONS_def)

lemma example_wing_found: "get_wing_by_id example_session 7 = Inr (Some example_wing)"
  by (simp add: get_wing_by_id_def example_session_def example_wing_def)

text \<open>
  A batch holding a file with an empty name before a file named \<open>a.exe\<close>, sent for an
  existing wing, fails with a validation error (422), not with a file-upload error; and
  the same \<open>a.exe\<close> sent for an unknown wing fails with a not-found error.
\<close>

theorem upload_photos_empty_filename_counterexample:
  "get_wing_by_id example_session 7 = Inr (Some example_wing) \<and>
   filename exe_file = Some ''a.exe'' \<and>
   file_ext ''a.exe'' = ''.exe'' \<and>
   file_ext ''a.exe'' \<notin> ALLOWED_IMAGE_EXTENSIONS \<and>
   upload_photos example_host 7 [nameless_file, exe_file] example_session =
     (Inl (ValidationError ''File must have a filename''), example_session, []) \<and>
   fst (upload_photos example_host 7 [nameless_file, exe_file] example_session) \<noteq>
     Inl (FileUploadError ''a.exe'') \<and>
   status_code (ValidationError ''File must have a filename'') = 422 \<and>
   get_wing_by_id example_session 8 = Inr None \<and>
   upload_photos example_host 8 [exe_file] example_session =
     (Inl (NotFoundError ''Wing'' (Identifier 8)), example_session, [])"
proof -
  have x: "file_ext ''a.exe'' = ''.exe''"
    by (simp add: file_ext_def rsplit1_def py_lower_def py_lower_char_def)
  have "validate_all [nameless_file, exe_file] =
      Inl (ValidationError ''File must have a filename'')"
    by (simp add: example_files_validated)
  then have u: "upload_photos example_host 7 [nameless_file, exe_file] example_session =
      (Inl (ValidationError ''File must have a filename''), example_session, [])"
    by (simp add: upload_photos_def example_wing_found)
  have n: "get_wing_by_id example_session 8 = Inr None"
    by (simp add: get_wing_by_id_def example_session_def example_wing_def)
  then have m: "upload_photos example_host 8 [exe_file] example_session =
      (Inl (NotFoundError ''Wing'' (Identifier 8)), example_session, [])"
    by (simp add: upload_photos_def)
  show ?thesis
    unfolding u m x
    by (simp add: example_wing_found n exe_file_def ALLOWED_IMAGE_EXTENSIONS_def)
qed

theorem upload_photos_all_or_nothing_witness:
  "get_wing_by_id example_session 7 = Inr (Some example_wing) \<and>
   \<not> commit_fails example_session \<and>
   upload_photos example_host 7 [jpg_file, exe_file] example_session =
     (Inl (FileUploadError ''a.exe''), example_session, []) \<and>
   upload_photos failing_host 7 [jpg_file, png_file] example_session =
     (Inl (ExternalServiceError ''Cloudinary'' ''Failed to upload images''), example_session,
      [UploadImagesBulk [jpg_file, png_file] ''anvaya/codezero'']) \<and>
   (\<exists>created.
      fst (upload_photos example_host 7 [jpg_file, png_file] example_session) = Inr created \<and>
      map p_id created = [Some 6, Some 7] \<and>
      map p_cloudinary_id created = [''anvaya/codezero/a'', ''anvaya/codezero/b''] \<and>
      photos (fst (snd (upload_photos example_host 7 [jpg_file, png_file] example_session))) =
        example_photo # created)"
proof -
  note g = example_wing_found
  have c: "\<not> commit_fails example_session" by (simp add: example_session_def)
  have slug: "''anvaya/'' @ w_slug example_wing = ''anvaya/codezero''"
    by (simp add: example_wing_def)
  have bad1: "\<exists>f \<in> set [jpg_file, exe_file]. validate_image_file f \<noteq> Inr ()"
    by (simp add: example_files_validated)
  have bad2: "\<forall>f \<in> set [jpg_file, exe_file]. \<exists>name. filename f = Some name \<and> name \<noteq> []"
    by (simp add: jpg_file_def exe_file_def)
  have ok: "\<forall>f \<in> set [jpg_file, png_file]. validate_image_file f = Inr ()"
    by (simp add: example_files_validated)
  have "\<exists>name. upload_photos example_host 7 [jpg_file, exe_file] example_session =
      (Inl (FileUploadError name), example_session, [])"
    by (rule upload_photos_all_or_nothing [of example_session 7 example_host
          "[jpg_file, exe_file]" example_wing "[]",
          THEN conjunct2, THEN mp, OF g,
          THEN conjunct2, THEN conjunct1, THEN mp, OF conjI [OF bad1 bad2]])
  then obtain name where n: "upload_photos example_host 7 [jpg_file, exe_file] example_session =
      (Inl (FileUploadError name), example_session, [])" ..
  have "fst (upload_photos example_host 7 [jpg_file, exe_file] example_session) =
      Inl (FileUploadError ''a.exe'')"
    by (simp add: upload_photos_def g example_files_validated)
  with n have "name = ''a.exe''" by simp
  with n have a: "upload_photos example_host 7 [jpg_file, exe_file] example_session =
      (Inl (FileUploadError ''a.exe''), example_session, [])"
    by simp
  have f: "upload_images_bulk failing_host [jpg_file, png_file]
      (''anvaya/'' @ w_slug example_wing) = None"
    by (simp add: failing_host_def)
  have b: "upload_photos failing_host 7 [jpg_file, png_file] example_session =
      (Inl (ExternalServiceError ''Cloudinary'' ''Failed to upload images''), example_session,
       [UploadImagesBulk [jpg_file, png_file] ''anvaya/codezero''])"
    using upload_photos_all_or_nothing [of example_session 7 failing_host
          "[jpg_file, png_file]" example_wing "[]",
          THEN conjunct2, THEN mp, OF g,
          THEN conjunct2, THEN conjunct2, THEN conjunct1, THEN mp, OF conjI [OF ok f]]
    unfolding slug .
  let ?ups = "[\<lparr>url = ''http://m/anvaya/codezero/a'', public_id = ''anvaya/codezero/a''\<rparr>,
      \<lparr>url = ''http://m/anvaya/codezero/b'', public_id = ''anvaya/codezero/b''\<rparr>]"
  have u: "upload_images_bulk example_host [jpg_file, png_file]
      (''anvaya/'' @ w_slug example_wing) = Some ?ups"
    by (simp add: example_host_def example_wing_def jpg_file_def png_file_def)
  note upload_photos_all_or_nothing [of example_session 7 example_host
      "[jpg_file, png_file]" example_wing ?ups,
      THEN conjunct2, THEN mp, OF g,
      THEN conjunct2, THEN conjunct2, THEN conjunct2, THEN conjunct2, THEN mp,
      OF conjI [OF ok conjI [OF u c]]]
  then obtain created where d:
    "upload_photos example_host 7 [jpg_file, png_file] example_session =
       (Inr created,
        example_session\<lparr>photos := photos example_session @ created,
          photo_seq := photo_seq example_session + int (length ?ups)\<rparr>,
        [UploadImagesBulk [jpg_file, png_file] (''anvaya/'' @ w_slug example_wing)])"
    "map p_cloudinary_id created = map public_id ?ups"
    "map p_id created = map (\<lambda>i. Some (photo_seq example_session + int i)) [0 ..< length ?ups]"
    by (elim exE conjE)
  have "[0 ..< length ?ups] = [0, 1]" by (simp add: upt_rec)
  with d(3) have i: "map p_id created = [Some 6, Some 7]"
    by (simp add: example_session_def)
  from d(2) have k: "map p_cloudinary_id created = [''anvaya/codezero/a'', ''anvaya/codezero/b'']"
    by simp
  have p: "photos (fst (snd (upload_photos example_host 7 [jpg_file, png_file]
      example_session))) = example_photo # created"
    unfolding d(1) by (simp add: example_session_def)
  have r: "fst (upload_photos example_host 7 [jpg_file, png_file] example_session) =
      Inr created" unfolding d(1) by simp
  have e: "\<exists>created.
      fst (upload_photos example_host 7 [jpg_file, png_file] example_session) = Inr created \<and>
      map p_id created = [Some 6, Some 7] \<and>
      map p_cloudinary_id created = [''anvaya/codezero/a'', ''anvaya/codezero/b''] \<and>
      photos (fst (snd (upload_photos example_host 7 [jpg_file, png_file] example_session))) =
        example_photo # created"
    by (rule exI [of _ created]) (intro conjI r i k p)
  show ?thesis by (intro conjI g c a b e)
qed

section \<open>Statistics aggregation\<close>

text \<open>The loop as two folds: the counted rows and the years seen.\<close>

lemma stats_loop_fold:
  "stats_loop yr rows (ws, ys) =
     (fold record_activity (map snd (passing_rows yr rows)) ws,
      fold List.insert (map (\<lambda>(a, w). year (a_activity_date a)) rows) ys)"
proof (induction rows arbitrary: ws ys)
  case Nil
  show ?case by (simp add: passing_rows_def)
next
  case (Cons row rows)
  obtain a w where row: "row = (a, w)" by (cases row)
  have "year_matches yr a \<longleftrightarrow> \<not> (yr \<noteq> None \<and> Some (year (a_activity_date a)) \<noteq> yr)"
    by (auto simp: year_matches_def split: option.splits)
  then show ?case
    unfolding row using Cons.IH by (simp add: Let_def passing_rows_def)
qed

lemma set_fold_insert: "set (fold List.insert xs ys) = set xs \<union> set ys"
  by (induction xs arbitrary: ys) auto

lemma distinct_fold_insert: "distinct ys \<Longrightarrow> distinct (fold List.insert xs ys)"
  by (induction xs arbitrary: ys) auto

lemma record_activity_keys:
  "map fst (record_activity w ws) =
     (if w_id w \<in> fst ` set ws then map fst ws else map fst ws @ [w_id w])"
  by (induction w ws rule: record_activity.induct) auto

lemma record_activity_entry:
  assumes "(k, d) \<in> set (record_activity w ws)" and "distinct (map fst ws)"
  shows "(k \<noteq> w_id w \<and> (k, d) \<in> set ws) \<or>
     (k = w_id w \<and> st_name d = w_name w \<and> st_slug d = w_slug w \<and>
      ((w_id w \<notin> fst ` set ws \<and> st_count d = 1) \<or>
       (\<exists>d'. (k, d') \<in> set ws \<and> st_count d = st_count d' + 1)))"
  using assms
proof (induction w ws rule: record_activity.induct)
  case (1 w)
  then show ?case by (simp add: default_stat_def)
next
  case (2 w k' d' rest)
  show ?case
  proof (cases "k' = w_id w")
    case True
    with 2(2,3) show ?thesis by (auto simp: image_iff)
  next
    case False
    with 2 show ?thesis by (auto simp: image_iff)
  qed
qed


lemma fold_record_activity:
  "distinct (map fst (fold record_activity wl [])) \<and>
   fst ` set (fold record_activity wl []) = w_id ` set wl \<and>
   (\<forall>(k, d) \<in> set (fold record_activity wl []).
      st_count d = int (length (filter (\<lambda>w. w_id w = k) wl)) \<and>
      st_name d = w_name (last (filter (\<lambda>w. w_id w = k) wl)) \<and>
      st_slug d = w_slug (last (filter (\<lambda>w. w_id w = k) wl)))"
proof (induction wl rule: rev_induct)
  case Nil
  show ?case by simp
next
  case (snoc w wl)
  let ?ws = "fold record_activity wl []"
  from snoc have dist: "distinct (map fst ?ws)" and keys: "fst ` set ?ws = w_id ` set wl"
    and inv: "\<And>k d. (k, d) \<in> set ?ws \<Longrightarrow>
      st_count d = int (length (filter (\<lambda>w. w_id w = k) wl)) \<and>
      st_name d = w_name (last (filter (\<lambda>w. w_id w = k) wl)) \<and>
      st_slug d = w_slug (last (filter (\<lambda>w. w_id w = k) wl))"
    by auto
  have step: "fold record_activity (wl @ [w]) [] = record_activity w ?ws" by simp
  have d': "distinct (map fst (record_activity w ?ws))"
    using dist by (simp add: record_activity_keys)
  have "set (map fst (record_activity w ?ws)) = insert (w_id w) (fst ` set ?ws)"
    by (auto simp: record_activity_keys)
  then have k': "fst ` set (record_activity w ?ws) = w_id ` set (wl @ [w])"
    using keys by simp
  have e': "st_count d = int (length (filter (\<lambda>w. w_id w = k) (wl @ [w]))) \<and>
      st_name d = w_name (last (filter (\<lambda>w. w_id w = k) (wl @ [w]))) \<and>
      st_slug d = w_slug (last (filter (\<lambda>w. w_id w = k) (wl @ [w])))"
    if "(k, d) \<in> set (record_activity w ?ws)" for k d
  proof -
    from record_activity_entry [OF that dist]
    consider (other) "k \<noteq> w_id w" "(k, d) \<in> set ?ws"
      | (first) "k = w_id w" "st_name d = w_name w" "st_slug d = w_slug w"
          "w_id w \<notin> fst ` set ?ws" "st_count d = 1"
      | (again) d' where "k = w_id w" "st_name d = w_name w" "st_slug d = w_slug w"
          "(k, d') \<in> set ?ws" "st_count d = st_count d' + 1"
      by blast
    then show ?thesis
    proof cases
      case other
      with inv [OF other(2)] show ?thesis by simp
    next
      case first
      from first(4) keys have "w_id w \<notin> w_id ` set wl" by simp
      then have "\<forall>v \<in> set wl. w_id v \<noteq> w_id w" by (metis imageI)
      then have "filter (\<lambda>v. w_id v = w_id w) wl = []"
        by (simp add: filter_empty_conv)
      with first show ?thesis by simp
    next
      case again
      with inv [OF again(4)] show ?thesis by simp
    qed
  qed
  show ?case
    unfolding step using d' k' e' by blast
qed


lemma statistics_unfold:
  "statistics (get_activity_statistics yr rows) =
     sort_key (\<lambda>e. - activity_count e)
       (map (\<lambda>(k, d). \<lparr>wing_id = k, wing_name = st_name d, wing_slug = st_slug d,
                         activity_count = st_count d\<rparr>)
          (fold record_activity (map snd (passing_rows yr rows)) []))"
  by (simp add: get_activity_statistics_def stats_loop_fold)

lemma available_years_unfold:
  "available_years (get_activity_statistics yr rows) =
     rev (sort (fold List.insert (map (\<lambda>(a, w). year (a_activity_date a)) rows) []))"
  by (simp add: get_activity_statistics_def stats_loop_fold)

lemma wing_rows_snd:
  "filter (\<lambda>w. w_id w = k) (map snd rows) = map snd (wing_rows k rows)"
  by (simp add: wing_rows_def filter_map comp_def case_prod_unfold)

lemma fold_record_activity_entry:
  assumes "(k, d) \<in> set (fold record_activity (map snd rows) [])"
  shows "wing_rows k rows \<noteq> []"
    and "st_count d = int (length (wing_rows k rows))"
    and "st_name d = w_name (snd (last (wing_rows k rows)))"
    and "st_slug d = w_slug (snd (last (wing_rows k rows)))"
proof -
  note inv = fold_record_activity [of "map snd rows"]
  from inv have keys: "fst ` set (fold record_activity (map snd rows) []) =
      w_id ` set (map snd rows)"
    by (rule conjunct2 [THEN conjunct1])
  from assms have "k \<in> fst ` set (fold record_activity (map snd rows) [])"
    by (rule image_eqI [rotated]) simp
  then have "k \<in> w_id ` set (map snd rows)" unfolding keys .
  then obtain a w where "(a, w) \<in> set rows" "w_id w = k" by auto
  then have "(a, w) \<in> set (wing_rows k rows)" by (simp add: wing_rows_def)
  then show ne: "wing_rows k rows \<noteq> []" by auto
  from bspec [OF inv [THEN conjunct2, THEN conjunct2] assms]
  have c: "st_count d = int (length (filter (\<lambda>w. w_id w = k) (map snd rows)))"
    and n: "st_name d = w_name (last (filter (\<lambda>w. w_id w = k) (map snd rows)))"
    and l: "st_slug d = w_slug (last (filter (\<lambda>w. w_id w = k) (map snd rows)))"
    by simp_all
  from c show "st_count d = int (length (wing_rows k rows))"
    unfolding wing_rows_snd by simp
  from n ne show "st_name d = w_name (snd (last (wing_rows k rows)))"
    unfolding wing_rows_snd by (simp add: last_map)
  from l ne show "st_slug d = w_slug (snd (last (wing_rows k rows)))"
    unfolding wing_rows_snd by (simp add: last_map)
qed

lemma statistics_wing_ids:
  "distinct (map wing_id (statistics (get_activity_statistics yr rows)))"
  "wing_id ` set (statistics (get_activity_statistics yr rows)) =
     (\<lambda>(a, w). w_id w) ` set (passing_rows yr rows)"
proof -
  let ?ws = "fold record_activity (map snd (passing_rows yr rows)) []"
  let ?conv = "\<lambda>(k, d). \<lparr>wing_id = k, wing_name = st_name d, wing_slug = st_slug d,
      activity_count = st_count d\<rparr>"
  note inv = fold_record_activity [of "map snd (passing_rows yr rows)"]
  from inv have dist: "distinct (map fst ?ws)" by (rule conjunct1)
  from inv have keys: "fst ` set ?ws = w_id ` set (map snd (passing_rows yr rows))"
    by (rule conjunct2 [THEN conjunct1])
  have proj: "map wing_id (map ?conv ?ws) = map fst ?ws"
    by (simp add: comp_def case_prod_unfold)
  have d1: "distinct (map wing_id (map ?conv ?ws))" unfolding proj by (rule dist)
  then have "distinct (map ?conv ?ws)" "inj_on wing_id (set (map ?conv ?ws))"
    unfolding distinct_map by blast+
  then have "distinct (sort_key (\<lambda>e. - activity_count e) (map ?conv ?ws))"
    "inj_on wing_id (set (sort_key (\<lambda>e. - activity_count e) (map ?conv ?ws)))"
    by (simp_all only: distinct_sort set_sort)
  then have "distinct (map wing_id (sort_key (\<lambda>e. - activity_count e) (map ?conv ?ws)))"
    unfolding distinct_map [of wing_id] by blast
  then show "distinct (map wing_id (statistics (get_activity_statistics yr rows)))"
    unfolding statistics_unfold .
  have "wing_id ` set (sort_key (\<lambda>e. - activity_count e) (map ?conv ?ws)) =
      set (map wing_id (map ?conv ?ws))"
    by (simp only: set_sort set_map)
  also have "\<dots> = fst ` set ?ws" unfolding proj by simp
  also have "\<dots> = w_id ` set (map snd (passing_rows yr rows))" by (rule keys)
  also have "\<dots> = (\<lambda>(a, w). w_id w) ` set (passing_rows yr rows)"
    by (simp add: image_image case_prod_unfold)
  finally show "wing_id ` set (statistics (get_activity_statistics yr rows)) =
      (\<lambda>(a, w). w_id w) ` set (passing_rows yr rows)"
    unfolding statistics_unfold .
qed

lemma statistics_entry:
  assumes "e \<in> set (statistics (get_activity_statistics yr rows))"
  shows "wing_rows (wing_id e) (passing_rows yr rows) \<noteq> []"
    and "activity_count e = int (length (wing_rows (wing_id e) (passing_rows yr rows)))"
    and "wing_name e = w_name (snd (last (wing_rows (wing_id e) (passing_rows yr rows))))"
    and "wing_slug e = w_slug (snd (last (wing_rows (wing_id e) (passing_rows yr rows))))"
proof -
  let ?ws = "fold record_activity (map snd (passing_rows yr rows)) []"
  from assms have "e \<in> (\<lambda>(k, d). \<lparr>wing_id = k, wing_name = st_name d, wing_slug = st_slug d,
      activity_count = st_count d\<rparr>) ` set ?ws"
    unfolding statistics_unfold by (simp only: set_sort set_map)
  then obtain k d where kd: "(k, d) \<in> set ?ws"
    and e: "e = \<lparr>wing_id = k, wing_name = st_name d, wing_slug = st_slug d,
      activity_count = st_count d\<rparr>"
    by auto
  note f = fold_record_activity_entry [OF kd]
  from e have k: "wing_id e = k" by simp
  from f(1) show "wing_rows (wing_id e) (passing_rows yr rows) \<noteq> []" unfolding k .
  from f(2) e show "activity_count e =
      int (length (wing_rows (wing_id e) (passing_rows yr rows)))"
    unfolding k by simp
  from f(3) e show "wing_name e =
      w_name (snd (last (wing_rows (wing_id e) (passing_rows yr rows))))"
    unfolding k by simp
  from f(4) e show "wing_slug e =
      w_slug (snd (last (wing_rows (wing_id e) (passing_rows yr rows))))"
    unfolding k by simp
qed

lemma available_years_sorted:
  "sorted_wrt (\<lambda>x y. y < x) (available_years (get_activity_statistics yr rows))"
  "set (available_years (get_activity_statistics yr rows)) =
     (\<lambda>(a, w). year (a_activity_date a)) ` set rows"
proof -
  let ?ys = "fold List.insert (map (\<lambda>(a, w). year (a_activity_date a)) rows) []"
  have "distinct ?ys" by (rule distinct_fold_insert) simp
  then have "sorted_wrt (<) (sort ?ys)"
    by (simp add: strict_sorted_iff)
  then have "sorted_wrt (\<lambda>x y. y < x) (rev (sort ?ys))"
    by (simp add: sorted_wrt_rev)
  then show "sorted_wrt (\<lambda>x y. y < x) (available_years (get_activity_statistics yr rows))"
    unfolding available_years_unfold .
  have "set (rev (sort ?ys)) = (\<lambda>(a, w). year (a_activity_date a)) ` set rows"
    by (simp add: set_fold_insert)
  then show "set (available_years (get_activity_statistics yr rows)) =
      (\<lambda>(a, w). year (a_activity_date a)) ` set rows"
    unfolding available_years_unfold .
qed

lemma statistics_sorted:
  "sorted_wrt (\<lambda>x y. y \<le> x) (map activity_count (statistics (get_activity_statistics yr rows)))"
proof -
  have "sorted (map (\<lambda>e. - activity_count e) (statistics (get_activity_statistics yr rows)))"
    unfolding statistics_unfold by (rule sorted_sort_key)
  then show ?thesis by (simp add: sorted_map sorted_wrt_map)
qed

text \<open>
  Claim C1. For every list of (activity, wing) rows and every year filter, the statistics
  list has exactly one entry per wing id that occurs among the rows passing the filter;
  the entry's count is the number of passing rows of that wing, and its name and slug are
  those of the wing (as the last such row gives them); the counts are in descending
  order. \<open>available_years\<close> is strictly descending, hence without repetition, and holds
  exactly the years of all rows, whatever the filter; the filter is echoed.
\<close>

theorem get_activity_statistics_groups_by_wing:
  "distinct (map wing_id (statistics (get_activity_statistics yr rows))) \<and>
   wing_id ` set (statistics (get_activity_statistics yr rows)) =
     (\<lambda>(a, w). w_id w) ` set (passing_rows yr rows) \<and>
   (\<forall>e \<in> set (statistics (get_activity_statistics yr rows)).
      activity_count e = int (length (wing_rows (wing_id e) (passing_rows yr rows))) \<and>
      wing_name e = w_name (snd (last (wing_rows (wing_id e) (passing_rows yr rows)))) \<and>
      wing_slug e = w_slug (snd (last (wing_rows (wing_id e) (passing_rows yr rows))))) \<and>
   sorted_wrt (\<lambda>x y. y \<le> x)
     (map activity_count (statistics (get_activity_statistics yr rows))) \<and>
   sorted_wrt (\<lambda>x y. y < x) (available_years (get_activity_statistics yr rows)) \<and>
   set (available_years (get_activity_statistics yr rows)) =
     (\<lambda>(a, w). year (a_activity_date a)) ` set rows \<and>
   filtered_year (get_activity_statistics yr rows) = yr"
proof -
  have f: "filtered_year (get_activity_statistics yr rows) = yr"
    by (simp add: get_activity_statistics_def split_beta)
  have e: "\<forall>e \<in> set (statistics (get_activity_statistics yr rows)).
      activity_count e = int (length (wing_rows (wing_id e) (passing_rows yr rows))) \<and>
      wing_name e = w_name (snd (last (wing_rows (wing_id e) (passing_rows yr rows)))) \<and>
      wing_slug e = w_slug (snd (last (wing_rows (wing_id e) (passing_rows yr rows))))"
  proof
    fix e
    assume "e \<in> set (statistics (get_activity_statistics yr rows))"
    note s = statistics_entry [OF this]
    show "activity_count e = int (length (wing_rows (wing_id e) (passing_rows yr rows))) \<and>
      wing_name e = w_name (snd (last (wing_rows (wing_id e) (passing_rows yr rows)))) \<and>
      wing_slug e = w_slug (snd (last (wing_rows (wing_id e) (passing_rows yr rows))))"
      by (intro conjI s(2) s(3) s(4))
  qed
  show ?thesis
    by (intro conjI statistics_wing_ids e statistics_sorted available_years_sorted f)
qed

text \<open>
  Claim C8. For every input and every year filter, each entry of the statistics list has
  a count of at least 1, and a wing id none of whose rows passes the filter (a wing
  without activities has no row at all) has no entry.
\<close>

theorem statistics_entries_count_at_least_one:
  "(\<forall>e \<in> set (statistics (get_activity_statistics yr rows)). 1 \<le> activity_count e) \<and>
   ((\<forall>(a, w) \<in> set rows. w_id w = k \<longrightarrow> \<not> year_matches yr a) \<longrightarrow>
      k \<notin> wing_id ` set (statistics (get_activity_statistics yr rows)))"
proof (intro conjI ballI impI)
  fix e
  assume "e \<in> set (statistics (get_activity_statistics yr rows))"
  note s = statistics_entry [OF this]
  from s(1) have "1 \<le> int (length (wing_rows (wing_id e) (passing_rows yr rows)))"
    by (cases "wing_rows (wing_id e) (passing_rows yr rows)") simp_all
  then show "1 \<le> activity_count e" unfolding s(2) .
next
  assume none: "\<forall>(a, w) \<in> set rows. w_id w = k \<longrightarrow> \<not> year_matches yr a"
  show "k \<notin> wing_id ` set (statistics (get_activity_statistics yr rows))"
  proof
    assume "k \<in> wing_id ` set (statistics (get_activity_statistics yr rows))"
    then have "k \<in> (\<lambda>(a, w). w_id w) ` set (passing_rows yr rows)"
      unfolding statistics_wing_ids(2) .
    then obtain a w where "(a, w) \<in> set rows" "year_matches yr a" "w_id w = k"
      by (auto simp: passing_rows_def)
    with none show False by blast
  qed
qed


lemma example_statistics:
  "statistics (get_activity_statistics (Some 2024) example_rows) =
     [\<lparr>wing_id = 1, wing_name = ''Wing A'', wing_slug = ''a'', activity_count = 1\<rparr>,
      \<lparr>wing_id = 2, wing_name = ''Wing B'', wing_slug = ''b'', activity_count = 1\<rparr>]"
  "statistics (get_activity_statistics (Some 2023) example_rows) =
     [\<lparr>wing_id = 1, wing_name = ''Wing A'', wing_slug = ''a'', activity_count = 1\<rparr>]"
  "statistics (get_activity_statistics None example_rows) =
     [\<lparr>wing_id = 1, wing_name = ''Wing A'', wing_slug = ''a'', activity_count = 2\<rparr>,
      \<lparr>wing_id = 2, wing_name = ''Wing B'', wing_slug = ''b'', activity_count = 1\<rparr>]"
  "available_years (get_activity_statistics (Some 2024) example_rows) = [2024, 2023]"
  by (simp_all add: get_activity_statistics_def example_rows_def activity_in_def wing_a_def
      wing_b_def default_stat_def)

theorem get_activity_statistics_groups_by_wing_witness:
  "statistics (get_activity_statistics (Some 2024) example_rows) =
     [\<lparr>wing_id = 1, wing_name = ''Wing A'', wing_slug = ''a'', activity_count = 1\<rparr>,
      \<lparr>wing_id = 2, wing_name = ''Wing B'', wing_slug = ''b'', activity_count = 1\<rparr>] \<and>
   int (length (wing_rows 1 (passing_rows (Some 2024) example_rows))) = 1 \<and>
   int (length (wing_rows 2 (passing_rows (Some 2024) example_rows))) = 1 \<and>
   (\<lambda>(a, w). w_id w) ` set (passing_rows (Some 2024) example_rows) = {1, 2} \<and>
   available_years (get_activity_statistics (Some 2024) example_rows) = [2024, 2023] \<and>
   (\<lambda>(a, w). year (a_activity_date a)) ` set example_rows = {2024, 2023} \<and>
   filtered_year (get_activity_statistics (Some 2024) example_rows) = Some 2024 \<and>
   statistics (get_activity_statistics None example_rows) =
     [\<lparr>wing_id = 1, wing_name = ''Wing A'', wing_slug = ''a'', activity_count = 2\<rparr>,
      \<lparr>wing_id = 2, wing_name = ''Wing B'', wing_slug = ''b'', activity_count = 1\<rparr>]"
proof -
  note t = get_activity_statistics_groups_by_wing [of "Some 2024" example_rows]
  let ?a = "\<lparr>wing_id = 1, wing_name = ''Wing A'', wing_slug = ''a'', activity_count = 1\<rparr>"
  let ?b = "\<lparr>wing_id = 2, wing_name = ''Wing B'', wing_slug = ''b'', activity_count = 1\<rparr>"
  have ids: "(\<lambda>(a, w). w_id w) ` set (passing_rows (Some 2024) example_rows) = {1, 2}"
    using t [THEN conjunct2, THEN conjunct1] unfolding example_statistics by simp
  note entries = t [THEN conjunct2, THEN conjunct2, THEN conjunct1]
  have "?a \<in> set (statistics (get_activity_statistics (Some 2024) example_rows))"
    unfolding example_statistics by simp
  from bspec [OF entries this]
  have ca: "int (length (wing_rows 1 (passing_rows (Some 2024) example_rows))) = 1"
    by simp
  have "?b \<in> set (statistics (get_activity_statistics (Some 2024) example_rows))"
    unfolding example_statistics by simp
  from bspec [OF entries this]
  have cb: "int (length (wing_rows 2 (passing_rows (Some 2024) example_rows))) = 1"
    by simp
  have ys: "(\<lambda>(a, w). year (a_activity_date a)) ` set example_rows = {2024, 2023}"
    using t [THEN conjunct2, THEN conjunct2, THEN conjunct2, THEN conjunct2,
      THEN conjunct2, THEN conjunct1]
    unfolding example_statistics by simp
  note f = t [THEN conjunct2, THEN conjunct2, THEN conjunct2, THEN conjunct2,
      THEN conjunct2, THEN conjunct2]
  show ?thesis
    by (intro conjI example_statistics ids ca cb ys f)
qed

theorem statistics_entries_count_at_least_one_witness:
  "\<lparr>wing_id = 1, wing_name = ''Wing A'', wing_slug = ''a'', activity_count = 1\<rparr>
     \<in> set (statistics (get_activity_statistics (Some 2023) example_rows)) \<and>
   1 \<le> activity_count
     \<lparr>wing_id = 1, wing_name = ''Wing A'', wing_slug = ''a'', activity_count = 1\<rparr> \<and>
   2 \<notin> wing_id ` set (statistics (get_activity_statistics (Some 2023) example_rows)) \<and>
   3 \<notin> wing_id ` set (statistics (get_activity_statistics None example_rows))"
proof -
  let ?a = "\<lparr>wing_id = 1, wing_name = ''Wing A'', wing_slug = ''a'', activity_count = 1\<rparr>"
  have m: "?a \<in> set (statistics (get_activity_statistics (Some 2023) example_rows))"
    unfolding example_statistics by simp
  have c: "1 \<le> activity_count ?a"
    using statistics_entries_count_at_least_one [of "Some 2023" example_rows 2,
        THEN conjunct1] m
    by (rule bspec)
  have "\<forall>(a, w) \<in> set example_rows. w_id w = 2 \<longrightarrow> \<not> year_matches (Some 2023) a"
    by (simp add: example_rows_def activity_in_def wing_a_def wing_b_def year_matches_def)
  then have n: "2 \<notin> wing_id ` set (statistics (get_activity_statistics (Some 2023)
      example_rows))"
    by (rule statistics_entries_count_at_least_one [of "Some 2023" example_rows 2,
        THEN conjunct2, THEN mp])
  have "\<forall>(a, w) \<in> set example_rows. w_id w = 3 \<longrightarrow> \<not> year_matches None a"
    by (simp add: example_rows_def activity_in_def wing_a_def wing_b_def)
  then have o: "3 \<notin> wing_id ` set (statistics (get_activity_statistics None example_rows))"
    by (rule statistics_entries_count_at_least_one [of None example_rows 3,
        THEN conjunct2, THEN mp])
  show ?thesis by (intro conjI m c n o)
qed

end
